theory Spec2Isabelle
  imports Complex_Main
begin

section \<open>Machine numbers\<close>

text \<open>
  The C++ type \<open>int\<close> of \<open>Character.cc\<close> is 32 bits wide. Signed overflow is undefined in
  C++; the model fixes the two's complement result and writes the wrap-around out, so every
  theorem about arithmetic has to say in which range it holds. \<open>float\<close> values are
  modelled as reals (no NaN, no infinity), and a float literal stands for the real it
  denotes. The functions modelled here compare floats and scale them by two, which is exact
  in binary32; only \<open>useItem\<close> adds floats (the move speed and jump height bonuses), and
  there the model adds the reals and leaves the rounding of binary32 out. No theorem below
  reads the move speed or the jump height after \<open>useItem\<close>.
\<close>

definition int32 :: "int \<Rightarrow> int" where
  "int32 x = (x + 2147483648) mod 4294967296 - 2147483648"

definition isInt32 :: "int \<Rightarrow> bool" where
  "isInt32 x = (- 2147483648 \<le> x \<and> x < 2147483648)"

text \<open>C++ \<open>%\<close> truncates towards zero.\<close>

definition c_rem :: "int \<Rightarrow> int \<Rightarrow> int" where
  "c_rem a b = sgn a * (\<bar>a\<bar> mod \<bar>b\<bar>)"

text \<open>The float literal \<open>.01f\<close>: the binary32 value nearest to 1/100.\<close>

definition kThreshold :: real where
  "kThreshold = 5368709 / 536870912"

section \<open>Data model\<close>

text \<open>\<open>Character::State\<close>, with the enumerators \<open>Character.cc\<close> names.\<close>

datatype State =
    IDLE | RUNNING | RUNNING_START | RUNNING_STOP | JUMPING | FALLING | FALLING_GETUP
  | CROUCHING | DODGING_BACKWARD | DODGING_FORWARD
  | ATTACKING | ATTACKING_UNARMED | ATTACKING_CROUCH | ATTACKING_FORWARD
  | ATTACKING_MIDAIR | ATTACKING_MIDAIR_DOWNWARD | ATTACKING_UPWARD
  | SPELLCAST | KILLED | FORCE_UPDATE

datatype Sfx = SFX_JUMP | SFX_HURT | SFX_KILLED

datatype FixtureType = BODY | FEET | WEAPON

text \<open>
  \<open>Equipment::Type\<close>: \<open>Character.cc\<close> names \<open>WEAPON\<close> only (\<open>WEAPON_SLOT\<close> here, as
  \<open>FixtureType\<close> has a \<open>WEAPON\<close> of its own); the other enumerators are numbered.
  \<open>Item::Type\<close> values are never named in \<open>Character.cc\<close> and are numbers.
\<close>

datatype EquipmentType = WEAPON_SLOT | OTHER_SLOT nat

type_synonym ItemType = nat

text \<open>Pointers are addresses; \<open>nullptr\<close> is \<open>None\<close>.\<close>

type_synonym cid = nat
type_synonym item_ref = nat
type_synonym fixture_ref = nat

datatype error = AssertionFailed | NullDereference | DanglingPointer | IndexOutOfRange | BadCast

record ConsumableProfile =
  restoreHealth :: int
  restoreMagicka :: int
  restoreStamina :: int
  bonusPhysicalDamage :: int
  bonusStr :: int
  bonusDex :: int
  bonusInt :: int
  bonusLuk :: int
  bonusMoveSpeed :: real
  bonusJumpHeight :: real

text \<open>
  The dynamic class of an item object: \<open>dynamic_cast<Equipment*>\<close> succeeds on
  \<open>EquipmentObj\<close> only.
\<close>

datatype ItemKind = ItemObj | EquipmentObj EquipmentType | ConsumableObj ConsumableProfile

record Item =
  jsonFileName :: string
  itemType :: ItemType
  amount :: int
  kind :: ItemKind

record Profile =
  health :: int
  fullHealth :: int
  magicka :: int
  fullMagicka :: int
  stamina :: int
  fullStamina :: int
  baseMeleeDamage :: int
  strength :: int
  dexterity :: int
  intelligence :: int
  luck :: int
  moveSpeed :: real
  jumpHeight :: real
  bodyWidth :: real
  bodyHeight :: real
  exp_pts :: int
  level :: int
  sfxFileNames :: "Sfx \<Rightarrow> string"

text \<open>
  A fixture as \<open>B2BodyBuilder\<close> is asked to build it: the shape arguments (the last one
  is the pixels-per-meter scale), the filter bits, the sensor flag, the density and the user
  data.
\<close>

datatype Shape =
    CircleShape "real \<times> real" real real
  | PolygonShape "(real \<times> real) list" real

record Fixture =
  shape :: Shape
  categoryBits :: int
  maskBits :: int
  isSensor :: bool
  density :: "real option"
  userData :: cid

text \<open>
  The rigid body of the physics engine: its linear velocity, the fixtures attached to it
  (newest first, each under its address), the next free fixture address and the impulses
  applied to its centre so far.
\<close>

record b2Body =
  linearVelocity :: "real \<times> real"
  fixtureList :: "(fixture_ref \<times> Fixture) list"
  nextFixture :: fixture_ref
  appliedImpulses :: "(real \<times> real) list"

record Party =
  leader :: cid
  members :: "cid set"

text \<open>What the sprite was last asked to run.\<close>

datatype Animation = BodyAnimation State | ExtraAttackAnimation int

datatype Action = RepeatForever Animation | Repeat Animation nat

record Character =
  characterProfile :: Profile
  isFacingRight :: bool
  isCrouching :: bool
  isJumping :: bool
  isDodgingBackward :: bool
  isDodgingForward :: bool
  isAttacking :: bool
  isInvincible :: bool
  isTakingDamage :: bool
  isAlerted :: bool
  isKilled :: bool
  isSetToKill :: bool
  isGettingUpFromFalling :: bool
  isStartRunning :: bool
  isStopRunning :: bool
  overridingAttackState :: "State option"
  attackAnimationIdx :: int
  extraAttackAnimationsCount :: nat
  bodyAnimationDuration :: "State \<Rightarrow> real"
  spriteAction :: "Action option"
  lockedOnTarget :: "cid option"
  inRangeTargets :: "cid set"
  party :: "Party option"
  itemMapper :: "string \<Rightarrow> item_ref option"
  inventory :: "ItemType \<Rightarrow> item_ref set"
  equipmentSlots :: "EquipmentType \<Rightarrow> item_ref option"
  body :: b2Body
  fixtures :: "FixtureType \<Rightarrow> fixture_ref option"

section \<open>The animation state machine\<close>

text \<open>\<open>_kAttackAnimationIdxMax\<close>: there is at least one attack animation.\<close>

definition kAttackAnimationIdxMax :: "Character \<Rightarrow> int" where
  "kAttackAnimationIdxMax c = int32 (1 + int (extraAttackAnimationsCount c))"

text \<open>\<open>Character::determineAttackState\<close>\<close>

definition determineAttackState :: "Character \<Rightarrow> State" where
  "determineAttackState c =
     (case overridingAttackState c of
        Some s \<Rightarrow> s
      | None \<Rightarrow>
          if equipmentSlots c WEAPON_SLOT = None then ATTACKING_UNARMED
          else if isCrouching c then ATTACKING_CROUCH
          else if isJumping c then ATTACKING_MIDAIR
          else ATTACKING)"

text \<open>\<open>Character::determineState\<close>\<close>

definition determineState :: "Character \<Rightarrow> State" where
  "determineState c =
     (if isSetToKill c then KILLED
      else if isGettingUpFromFalling c then FALLING_GETUP
      else if isAttacking c then determineAttackState c
      else if isDodgingBackward c then DODGING_BACKWARD
      else if isDodgingForward c then DODGING_FORWARD
      else if snd (linearVelocity (body c)) < - 2.5 then FALLING
      else if isJumping c then JUMPING
      else if isCrouching c then CROUCHING
      else if isStartRunning c then RUNNING_START
      else if isStopRunning c then RUNNING_STOP
      else if \<bar>fst (linearVelocity (body c))\<bar> > kThreshold then RUNNING
      else IDLE)"

text \<open>
  \<open>Character::getBodyAttackAnimation\<close>: index 0 is the animation of \<open>ATTACKING\<close>, index
  \<open>i > 0\<close> is element \<open>i - 1\<close> of the vector of extra attack animations, whose size is
  \<open>_kAttackAnimationIdxMax - 1\<close>.
\<close>

definition getBodyAttackAnimation :: "Character \<Rightarrow> error + Animation" where
  "getBodyAttackAnimation c =
     (if attackAnimationIdx c = 0 then Inr (BodyAnimation ATTACKING)
      else if 0 \<le> attackAnimationIdx c - 1 \<and>
              attackAnimationIdx c - 1 < kAttackAnimationIdxMax c - 1
           then Inr (ExtraAttackAnimation (attackAnimationIdx c - 1))
      else Inl IndexOutOfRange)"

text \<open>\<open>Character::runAnimation(State state, bool loop)\<close>\<close>

definition runAnimation :: "State \<Rightarrow> bool \<Rightarrow> Character \<Rightarrow> error + Character" where
  "runAnimation state loop c =
     (case (if state \<noteq> ATTACKING then Inr (BodyAnimation state) else getBodyAttackAnimation c) of
        Inl e \<Rightarrow> Inl e
      | Inr animate \<Rightarrow>
          (let c1 = c\<lparr>spriteAction := Some (if loop then RepeatForever animate else Repeat animate 1)\<rparr>
           in if state = ATTACKING
              then Inr (c1\<lparr>attackAnimationIdx :=
                          c_rem (int32 (attackAnimationIdx c1 + 1)) (kAttackAnimationIdxMax c1)\<rparr>)
              else Inr c1))"

text \<open>A run of dispatches, none of them looped, stopping at the first failure.\<close>

fun dispatchAll :: "State list \<Rightarrow> Character \<Rightarrow> error + Character" where
  "dispatchAll [] c = Inr c"
| "dispatchAll (s # ss) c =
     (case runAnimation s False c of Inl e \<Rightarrow> Inl e | Inr c' \<Rightarrow> dispatchAll ss c')"

section \<open>The world\<close>

text \<open>
  Characters refer to each other by address (allies, lock-on target, in-range targets), and
  items are shared objects, so both live in a store. The closures handed to
  \<open>CallbackManager::runAfter\<close> are recorded by name with their delay; the one-way
  notifications (effects, floating damage, sound, HUD) are recorded in order.
\<close>

datatype Callback = ClearTakingDamage cid | ClearStartRunning cid

datatype Notification =
    HitFx cid | FloatingDamage cid int | PlaySfx string | PlaySfxEquipUnequipItem
  | HudUpdateStatusBars

record World =
  chars :: "cid \<Rightarrow> Character"
  items :: "item_ref \<Rightarrow> Item"
  callbacks :: "(Callback \<times> real) list"
  notifications :: "Notification list"

text \<open>
  Constants of \<open>Constants.h\<close> and default arguments of \<open>Character.h\<close>, neither of which is
  at hand: they are parameters of the functions that use them.
\<close>

record Constants =
  kDestroyed :: int
  kFeet :: int
  kPpm :: real
  kDensity :: real
  unequipAudioDefault :: bool

definition updChar :: "cid \<Rightarrow> (Character \<Rightarrow> Character) \<Rightarrow> World \<Rightarrow> World" where
  "updChar this f w = w\<lparr>chars := (chars w)(this := f (chars w this))\<rparr>"

text \<open>
  A loop over a set of characters whose body touches the character of the iteration only:
  the iterations commute, so the outcome does not depend on the order of the
  \<open>unordered_set\<close>.
\<close>

definition forEachChar :: "cid set \<Rightarrow> (Character \<Rightarrow> Character) \<Rightarrow> World \<Rightarrow> World" where
  "forEachChar S f w = w\<lparr>chars := (\<lambda>x. if x \<in> S then f (chars w x) else chars w x)\<rparr>"

text \<open>
  Modelled from the spec: \<open>CallbackManager::runAfter\<close> (the timer collaborator: run a
  callback after a delay in seconds) and the notification sinks are not among the sources;
  a call appends to the record of the world.
\<close>

definition runAfter :: "Callback \<Rightarrow> real \<Rightarrow> World \<Rightarrow> World" where
  "runAfter cb delay w = w\<lparr>callbacks := callbacks w @ [(cb, delay)]\<rparr>"

definition notify :: "Notification list \<Rightarrow> World \<Rightarrow> World" where
  "notify ns w = w\<lparr>notifications := notifications w @ ns\<rparr>"

text \<open>\<open>Character::getAllies\<close>\<close>

definition getAllies :: "World \<Rightarrow> cid \<Rightarrow> cid set" where
  "getAllies w this =
     (case party (chars w this) of
        None \<Rightarrow> {}
      | Some p \<Rightarrow> members p \<union> (if leader p \<noteq> this then {leader p} else {}))"

text \<open>\<open>Character::getSfxFileName\<close>\<close>

definition getSfxFileName :: "Character \<Rightarrow> Sfx \<Rightarrow> string option" where
  "getSfxFileName c sfx =
     (if sfxFileNames (characterProfile c) sfx \<noteq> [] then Some (sfxFileNames (characterProfile c) sfx)
      else None)"

section \<open>Combat\<close>

definition setHealth :: "int \<Rightarrow> Character \<Rightarrow> Character" where
  "setHealth h c = c\<lparr>characterProfile := (characterProfile c)\<lparr>health := h\<rparr>\<rparr>"

definition getHealth :: "World \<Rightarrow> cid \<Rightarrow> int" where
  "getHealth w this = health (characterProfile (chars w this))"

text \<open>
  Modelled from the spec: \<open>DynamicActor::setCategoryBits\<close> is not among the sources; the
  specification has \<open>receiveDamage\<close> flag the body fixture as of the destroyed category
  through it. It writes the category bits of the fixture's filter; a null or stale fixture
  pointer is a failure.
\<close>

definition setCategoryBits :: "fixture_ref option \<Rightarrow> int \<Rightarrow> b2Body \<Rightarrow> error + b2Body" where
  "setCategoryBits f bits b =
     (case f of
        None \<Rightarrow> Inl NullDereference
      | Some r \<Rightarrow>
          (case map_of (fixtureList b) r of
             None \<Rightarrow> Inl DanglingPointer
           | Some fx0 \<Rightarrow>
               Inr (b\<lparr>fixtureList :=
                        map (\<lambda>p. if fst p = r then (fst p, (snd p)\<lparr>categoryBits := bits\<rparr>) else p)
                            (fixtureList b)\<rparr>)))"

definition eraseInRangeTarget :: "cid \<Rightarrow> Character \<Rightarrow> Character" where
  "eraseInRangeTarget t c = c\<lparr>inRangeTargets := inRangeTargets c - {t}\<rparr>"

definition clearLockOnAt :: "cid \<Rightarrow> Character \<Rightarrow> Character" where
  "clearLockOnAt t c = (if lockedOnTarget c = Some t then c\<lparr>lockedOnTarget := None\<rparr> else c)"

text \<open>The branch of \<open>Character::receiveDamage\<close> taken when health has dropped to zero or below.\<close>

definition onZeroHealth :: "Constants \<Rightarrow> World \<Rightarrow> cid \<Rightarrow> cid \<Rightarrow> error + World" where
  "onZeroHealth K w this src =
     (let w1 = updChar this (setHealth 0) w;
          w2 = updChar src (eraseInRangeTarget this) w1;
          w3 = forEachChar (getAllies w2 src) (\<lambda>a. clearLockOnAt this (eraseInRangeTarget this a)) w2
      in case setCategoryBits (fixtures (chars w3 this) BODY) (kDestroyed K) (body (chars w3 this)) of
           Inl e \<Rightarrow> Inl e
         | Inr b \<Rightarrow> Inr (updChar this (\<lambda>c. c\<lparr>body := b, isSetToKill := True\<rparr>) w3))"

text \<open>\<open>Character::receiveDamage\<close>\<close>

definition receiveDamage ::
  "Constants \<Rightarrow> World \<Rightarrow> cid \<Rightarrow> cid option \<Rightarrow> int \<Rightarrow> error + (bool \<times> World)" where
  "receiveDamage K w this source damage =
     (case source of
        None \<Rightarrow> Inr (False, w)
      | Some src \<Rightarrow>
          if isSetToKill (chars w src) \<or> isKilled (chars w src) then Inr (False, w)
          else if isInvincible (chars w this) then Inr (True, w)
          else
            (let w1 = updChar this (\<lambda>c. setHealth (int32 (health (characterProfile c) - damage)) c) w;
                 w2 = updChar this (\<lambda>c. c\<lparr>isTakingDamage := True\<rparr>) w1;
                 w3 = runAfter (ClearTakingDamage this) 0.25 w2
             in case (if getHealth w3 this \<le> 0 then onZeroHealth K w3 this src else Inr w3) of
                  Inl e \<Rightarrow> Inl e
                | Inr w4 \<Rightarrow>
                    Inr (True,
                         notify ([HitFx this, FloatingDamage this damage] @
                                 (case getSfxFileName (chars w4 this) SFX_HURT of
                                    Some f \<Rightarrow> [PlaySfx f]
                                  | None \<Rightarrow> [])) w4)))"

text \<open>\<open>Character::lockOn\<close>\<close>

definition lockOn :: "cid option \<Rightarrow> Character \<Rightarrow> Character" where
  "lockOn target c = c\<lparr>isAlerted := True, lockedOnTarget := target\<rparr>"

text \<open>\<open>Character::inflictDamage\<close>\<close>

definition inflictDamage ::
  "Constants \<Rightarrow> World \<Rightarrow> cid \<Rightarrow> cid option \<Rightarrow> int \<Rightarrow> error + (bool \<times> World)" where
  "inflictDamage K w this target damage =
     (case target of
        None \<Rightarrow> Inr (False, w)
      | Some t \<Rightarrow>
          (case receiveDamage K w t (Some this) damage of
             Inl e \<Rightarrow> Inl e
           | Inr r \<Rightarrow>
               (let w1 = updChar t (lockOn (Some this)) (snd r);
                    w2 = forEachChar (getAllies w1 this) (lockOn (Some t)) w1;
                    w3 = forEachChar (getAllies w2 t) (lockOn (Some this)) w2
                in Inr (True, w3))))"

text \<open>\<open>Character::regenHealth\<close>\<close>

definition regenHealth :: "int \<Rightarrow> Character \<Rightarrow> Character" where
  "regenHealth deltaHealth c =
     (let h = int32 (health (characterProfile c) + deltaHealth)
      in setHealth (if h > fullHealth (characterProfile c) then fullHealth (characterProfile c) else h) c)"

section \<open>Inventory and equipment\<close>

definition setAmount :: "item_ref \<Rightarrow> int \<Rightarrow> World \<Rightarrow> World" where
  "setAmount r n w = w\<lparr>items := (items w)(r := (items w r)\<lparr>amount := n\<rparr>)\<rparr>"

definition inventoryInsert :: "ItemType \<Rightarrow> item_ref \<Rightarrow> Character \<Rightarrow> Character" where
  "inventoryInsert ty r c = c\<lparr>inventory := (inventory c)(ty := insert r (inventory c ty))\<rparr>"

definition inventoryErase :: "ItemType \<Rightarrow> item_ref \<Rightarrow> Character \<Rightarrow> Character" where
  "inventoryErase ty r c = c\<lparr>inventory := (inventory c)(ty := inventory c ty - {r})\<rparr>"

text \<open>\<open>Character::getExistingItemObj\<close>\<close>

definition getExistingItemObj :: "World \<Rightarrow> cid \<Rightarrow> item_ref option \<Rightarrow> item_ref option" where
  "getExistingItemObj w this item =
     (case item of
        None \<Rightarrow> None
      | Some r \<Rightarrow> itemMapper (chars w this) (jsonFileName (items w r)))"

text \<open>\<open>Character::getItemAmount\<close>\<close>

definition getItemAmount :: "World \<Rightarrow> cid \<Rightarrow> string \<Rightarrow> int" where
  "getItemAmount w this itemJsonFileName =
     (case itemMapper (chars w this) itemJsonFileName of
        None \<Rightarrow> 0
      | Some r \<Rightarrow> amount (items w r))"

text \<open>\<open>Character::addItem\<close> (the warning it logs on a null item or a zero amount is left out)\<close>

definition addItem :: "World \<Rightarrow> cid \<Rightarrow> item_ref option \<Rightarrow> int \<Rightarrow> World" where
  "addItem w this item amt =
     (case item of
        None \<Rightarrow> w
      | Some r \<Rightarrow>
          if amt = 0 then w
          else
            (case getExistingItemObj w this (Some r) of
               Some e \<Rightarrow>
                 (let w1 = setAmount e (int32 (amount (items w e) + amt)) w
                  in updChar this (inventoryInsert (itemType (items w1 e)) e) w1)
             | None \<Rightarrow>
                 (let w1 = setAmount r amt w;
                      w2 = updChar this
                             (\<lambda>c. c\<lparr>itemMapper := (itemMapper c)(jsonFileName (items w1 r) \<mapsto> r)\<rparr>) w1
                  in updChar this (inventoryInsert (itemType (items w2 r)) r) w2)))"

text \<open>
  \<open>Character::removeItem\<close>, as a debug build runs it: the assertion on the final amount
  aborts.
\<close>

definition removeItem :: "World \<Rightarrow> cid \<Rightarrow> item_ref option \<Rightarrow> int \<Rightarrow> error + World" where
  "removeItem w this item amt =
     (case item of
        None \<Rightarrow> Inr w
      | Some r \<Rightarrow>
          (case getExistingItemObj w this (Some r) of
             None \<Rightarrow> Inr w
           | Some e \<Rightarrow>
               if amt = 0 then Inr w
               else
                 (let finalAmount = int32 (amount (items w e) - amt)
                  in if \<not> finalAmount \<ge> 0 then Inl AssertionFailed
                     else
                       (let w1 = setAmount e finalAmount w
                        in if finalAmount = 0
                           then
                             (let w2 = updChar this (inventoryErase (itemType (items w1 r)) e) w1
                              in if (case kind (items w2 e) of
                                       EquipmentObj ty \<Rightarrow> equipmentSlots (chars w2 this) ty \<noteq> Some e
                                     | _ \<Rightarrow> True)
                                 then Inr (updChar this
                                             (\<lambda>c. c\<lparr>itemMapper :=
                                                       (itemMapper c)(jsonFileName (items w2 r) := None)\<rparr>)
                                             w2)
                                 else Inr w2)
                           else Inr w1))))"

text \<open>
  \<open>Character::useItem\<close>. The argument is a \<open>Consumable*\<close>: an object of another class
  cannot be passed, which the model reports as \<open>BadCast\<close>. The last two updates of
  \<open>restoreStats\<close> add floats: the model has the exact sums, where the code rounds them to
  binary32.
\<close>

definition restoreStats :: "ConsumableProfile \<Rightarrow> Profile \<Rightarrow> Profile" where
  "restoreStats cp p0 =
     (let p1 = p0\<lparr>health := int32 (health p0 + restoreHealth cp)\<rparr>;
          p2 = (if health p1 > fullHealth p1 then p1\<lparr>health := fullHealth p1\<rparr> else p1);
          p3 = p2\<lparr>magicka := int32 (magicka p2 + restoreMagicka cp)\<rparr>;
          p4 = (if magicka p3 > fullMagicka p3 then p3\<lparr>magicka := fullMagicka p3\<rparr> else p3);
          p5 = p4\<lparr>stamina := int32 (stamina p4 + restoreStamina cp)\<rparr>;
          p6 = (if stamina p5 > fullStamina p5 then p5\<lparr>stamina := fullStamina p5\<rparr> else p5)
      in p6\<lparr>baseMeleeDamage := int32 (baseMeleeDamage p6 + bonusPhysicalDamage cp),
             strength := int32 (strength p6 + bonusStr cp),
             dexterity := int32 (dexterity p6 + bonusDex cp),
             intelligence := int32 (intelligence p6 + bonusInt cp),
             luck := int32 (luck p6 + bonusLuk cp),
             moveSpeed := moveSpeed p6 + bonusMoveSpeed cp,
             jumpHeight := jumpHeight p6 + bonusJumpHeight cp\<rparr>)"

definition useItem :: "World \<Rightarrow> cid \<Rightarrow> item_ref \<Rightarrow> error + World" where
  "useItem w this consumable =
     (case kind (items w consumable) of
        ConsumableObj cp \<Rightarrow>
          (let w1 = updChar this (\<lambda>c. c\<lparr>characterProfile := restoreStats cp (characterProfile c)\<rparr>) w
           in case removeItem w1 this (Some consumable) 1 of
                Inl e \<Rightarrow> Inl e
              | Inr w2 \<Rightarrow> Inr (notify [HudUpdateStatusBars] w2))
      | _ \<Rightarrow> Inl BadCast)"

text \<open>\<open>Character::unequip\<close> (the error it logs when the item is not in the mapper is left out)\<close>

definition unequip :: "World \<Rightarrow> cid \<Rightarrow> EquipmentType \<Rightarrow> bool \<Rightarrow> World" where
  "unequip w this equipmentType audio =
     (case equipmentSlots (chars w this) equipmentType of
        None \<Rightarrow> w
      | Some e \<Rightarrow>
          (let w1 = updChar this (\<lambda>c. c\<lparr>equipmentSlots := (equipmentSlots c)(equipmentType := None)\<rparr>) w
           in case itemMapper (chars w1 this) (jsonFileName (items w1 e)) of
                None \<Rightarrow> w1
              | Some r \<Rightarrow>
                  (let w2 = addItem w1 this (Some r) 1
                   in if audio then notify [PlaySfxEquipUnequipItem] w2 else w2)))"

text \<open>\<open>Character::equip\<close>, on an \<open>Equipment*\<close>\<close>

definition equip :: "Constants \<Rightarrow> World \<Rightarrow> cid \<Rightarrow> item_ref \<Rightarrow> bool \<Rightarrow> error + World" where
  "equip K w this equipment audio =
     (case kind (items w equipment) of
        EquipmentObj ty \<Rightarrow>
          (let w1 = (if equipmentSlots (chars w this) ty \<noteq> None
                     then unequip w this ty (unequipAudioDefault K) else w);
               w2 = updChar this (\<lambda>c. c\<lparr>equipmentSlots := (equipmentSlots c)(ty \<mapsto> equipment)\<rparr>) w1
           in case removeItem w2 this (Some equipment) 1 of
                Inl e \<Rightarrow> Inl e
              | Inr w3 \<Rightarrow> Inr (if audio then notify [PlaySfxEquipUnequipItem] w3 else w3))
      | _ \<Rightarrow> Inl BadCast)"

section \<open>Movement\<close>

text \<open>\<open>Character::startRunning\<close>\<close>

definition startRunning :: "World \<Rightarrow> cid \<Rightarrow> World" where
  "startRunning w this =
     (let w1 = updChar this (\<lambda>c. c\<lparr>isStartRunning := True\<rparr>) w
      in runAfter (ClearStartRunning this) (bodyAnimationDuration (chars w1 this) RUNNING_START) w1)"

text \<open>
  Modelled from the spec: \<open>b2Body::ApplyLinearImpulseToCenter\<close> belongs to the physics
  engine, which is not among the sources; the request is recorded on the body.
\<close>

definition ApplyLinearImpulseToCenter :: "real \<times> real \<Rightarrow> Character \<Rightarrow> Character" where
  "ApplyLinearImpulseToCenter impulse c =
     c\<lparr>body := (body c)\<lparr>appliedImpulses := appliedImpulses (body c) @ [impulse]\<rparr>\<rparr>"

text \<open>\<open>Character::moveLeft\<close>\<close>

definition moveLeft :: "World \<Rightarrow> cid \<Rightarrow> World" where
  "moveLeft w this =
     (let w1 = updChar this (\<lambda>c. c\<lparr>isFacingRight := False\<rparr>) w
      in if isCrouching (chars w1 this) \<or> isGettingUpFromFalling (chars w1 this) then w1
         else
           (let velocity = linearVelocity (body (chars w1 this));
                w2 = (if fst velocity = 0 then startRunning w1 this else w1)
            in if fst velocity \<ge> - moveSpeed (characterProfile (chars w2 this)) * 2
               then updChar this
                      (\<lambda>c. ApplyLinearImpulseToCenter (- moveSpeed (characterProfile c), 0) c) w2
               else w2))"

text \<open>\<open>Character::moveRight\<close>\<close>

definition moveRight :: "World \<Rightarrow> cid \<Rightarrow> World" where
  "moveRight w this =
     (let w1 = updChar this (\<lambda>c. c\<lparr>isFacingRight := True\<rparr>) w
      in if isCrouching (chars w1 this) \<or> isGettingUpFromFalling (chars w1 this) then w1
         else
           (let velocity = linearVelocity (body (chars w1 this));
                w2 = (if fst velocity = 0 then startRunning w1 this else w1)
            in if fst velocity \<le> moveSpeed (characterProfile (chars w2 this)) * 2
               then updChar this
                      (\<lambda>c. ApplyLinearImpulseToCenter (moveSpeed (characterProfile c), 0) c) w2
               else w2))"

section \<open>Fixtures\<close>

text \<open>
  Modelled from the spec: the physics engine and \<open>B2BodyBuilder\<close> are not among the
  sources; the specification lists their interface (create and destroy a fixture with
  shape, category bits, mask bits, sensor flag, density and user data). Destroying detaches
  the fixture from the body (a null fixture is ignored), creating attaches a new one at the
  head of the list under a fresh address.
\<close>

definition DestroyFixture :: "fixture_ref option \<Rightarrow> b2Body \<Rightarrow> b2Body" where
  "DestroyFixture f b =
     (case f of
        None \<Rightarrow> b
      | Some r \<Rightarrow> b\<lparr>fixtureList := filter (\<lambda>p. fst p \<noteq> r) (fixtureList b)\<rparr>)"

definition buildFixture :: "Fixture \<Rightarrow> b2Body \<Rightarrow> fixture_ref \<times> b2Body" where
  "buildFixture fx b =
     (nextFixture b,
      b\<lparr>fixtureList := (nextFixture b, fx) # fixtureList b, nextFixture := Suc (nextFixture b)\<rparr>)"

text \<open>\<open>Character::redefineFeetFixture\<close>\<close>

definition redefineFeetFixture :: "Constants \<Rightarrow> cid \<Rightarrow> int \<Rightarrow> Character \<Rightarrow> error + Character" where
  "redefineFeetFixture K this feetMaskBits c =
     (case (case fixtures c FEET of
              None \<Rightarrow> Inr (feetMaskBits, c)
            | Some fr \<Rightarrow>
                (case map_of (fixtureList (body c)) fr of
                   None \<Rightarrow> Inl DanglingPointer
                 | Some fx \<Rightarrow>
                     Inr (maskBits fx,
                          c\<lparr>body := DestroyFixture (fixtures c BODY) (body c),
                            fixtures := (fixtures c)(BODY := None)\<rparr>))) of
        Inl e \<Rightarrow> Inl e
      | Inr mc \<Rightarrow>
          (let c1 = snd mc;
               bw = bodyWidth (characterProfile c1);
               bh = bodyHeight (characterProfile c1);
               feetFixtureRadius = bw / 2;
               feetFixtureCenter = (0, - bh / 2 + bw / 2);
               built = buildFixture
                         \<lparr>shape = CircleShape feetFixtureCenter feetFixtureRadius (kPpm K),
                          categoryBits = kFeet K,
                          maskBits = fst mc,
                          isSensor = False,
                          density = Some (kDensity K),
                          userData = this\<rparr>
                         (body c1)
           in Inr (c1\<lparr>body := snd built, fixtures := (fixtures c1)(FEET \<mapsto> fst built)\<rparr>)))"

section \<open>Experience\<close>

text \<open>
  \<open>Character::addExp\<close>. \<open>exp_point_table::getNextLevelExp\<close> is not at hand and is the
  parameter \<open>getNextLevelExp\<close>. The loop need not end (a threshold that is not positive), so
  not returning is the value \<open>None\<close>.
\<close>

partial_function (option) addExpLoop :: "(int \<Rightarrow> int) \<Rightarrow> int \<Rightarrow> int \<Rightarrow> (int \<times> int) option" where
  "addExpLoop getNextLevelExp thisExp thisLevel =
     (if thisExp \<ge> getNextLevelExp thisLevel
      then addExpLoop getNextLevelExp (int32 (thisExp - getNextLevelExp thisLevel)) (int32 (thisLevel + 1))
      else Some (thisExp, thisLevel))"

definition addExp :: "(int \<Rightarrow> int) \<Rightarrow> int \<Rightarrow> Character \<Rightarrow> Character option" where
  "addExp getNextLevelExp gain c =
     (case addExpLoop getNextLevelExp
             (int32 (exp_pts (characterProfile c) + gain)) (level (characterProfile c)) of
        None \<Rightarrow> None
      | Some r \<Rightarrow> Some (c\<lparr>characterProfile := (characterProfile c)\<lparr>exp_pts := fst r, level := snd r\<rparr>\<rparr>))"

section \<open>Concrete characters and worlds\<close>

definition exampleProfile :: Profile where
  "exampleProfile =
     \<lparr>health = 10, fullHealth = 50, magicka = 20, fullMagicka = 30, stamina = 20,
      fullStamina = 30, baseMeleeDamage = 8, strength = 5, dexterity = 5, intelligence = 5,
      luck = 5, moveSpeed = 1, jumpHeight = 3, bodyWidth = 10, bodyHeight = 32,
      exp_pts = 0, level = 1, sfxFileNames = (\<lambda>s. [])\<rparr>"

definition exampleFixture :: "int \<Rightarrow> int \<Rightarrow> Fixture" where
  "exampleFixture cbits mbits =
     \<lparr>shape = PolygonShape [] 32, categoryBits = cbits, maskBits = mbits, isSensor = True,
      density = None, userData = 1\<rparr>"

text \<open>A body with a BODY, a FEET and a WEAPON fixture at the addresses 0, 1 and 2.\<close>

definition exampleBody :: b2Body where
  "exampleBody =
     \<lparr>linearVelocity = (0, 0),
      fixtureList = [(2, exampleFixture 8 4), (1, exampleFixture 2 96), (0, exampleFixture 1 6)],
      nextFixture = 3,
      appliedImpulses = []\<rparr>"

definition exampleCharacter :: Character where
  "exampleCharacter =
     \<lparr>characterProfile = exampleProfile,
      isFacingRight = True, isCrouching = False, isJumping = False,
      isDodgingBackward = False, isDodgingForward = False, isAttacking = False,
      isInvincible = False, isTakingDamage = False, isAlerted = False, isKilled = False,
      isSetToKill = False, isGettingUpFromFalling = False, isStartRunning = False,
      isStopRunning = False,
      overridingAttackState = None,
      attackAnimationIdx = 0,
      extraAttackAnimationsCount = 2,
      bodyAnimationDuration = (\<lambda>s. 0.5),
      spriteAction = None,
      lockedOnTarget = None,
      inRangeTargets = {},
      party = None,
      itemMapper = (\<lambda>j. None),
      inventory = (\<lambda>ty. {}),
      equipmentSlots = (\<lambda>ty. None),
      body = exampleBody,
      fixtures = (\<lambda>ft. case ft of BODY \<Rightarrow> Some 0 | FEET \<Rightarrow> Some 1 | WEAPON \<Rightarrow> Some 2)\<rparr>"

definition exampleConstants :: Constants where
  "exampleConstants =
     \<lparr>kDestroyed = 64, kFeet = 2, kPpm = 32, kDensity = 1, unequipAudioDefault = True\<rparr>"

section \<open>The specification's words\<close>

text \<open>
  The priority list of the specification: the first entry whose condition holds gives the
  state, and \<open>IDLE\<close> is the default.
\<close>

fun firstMatch :: "(bool \<times> 'a) list \<Rightarrow> 'a \<Rightarrow> 'a" where
  "firstMatch [] d = d"
| "firstMatch (p # rest) d = (if fst p then snd p else firstMatch rest d)"

definition spec_attackVariant :: "Character \<Rightarrow> State" where
  "spec_attackVariant c =
     (case overridingAttackState c of
        Some s \<Rightarrow> s
      | None \<Rightarrow>
          firstMatch
            [(equipmentSlots c WEAPON_SLOT = None, ATTACKING_UNARMED),
             (isCrouching c, ATTACKING_CROUCH),
             (isJumping c, ATTACKING_MIDAIR)]
            ATTACKING)"

definition spec_priority :: "Character \<Rightarrow> (bool \<times> State) list" where
  "spec_priority c =
     [(isSetToKill c, KILLED),
      (isGettingUpFromFalling c, FALLING_GETUP),
      (isAttacking c, spec_attackVariant c),
      (isDodgingBackward c, DODGING_BACKWARD),
      (isDodgingForward c, DODGING_FORWARD),
      (snd (linearVelocity (body c)) < - 2.5, FALLING),
      (isJumping c, JUMPING),
      (isCrouching c, CROUCHING),
      (isStartRunning c, RUNNING_START),
      (isStopRunning c, RUNNING_STOP),
      (\<bar>fst (linearVelocity (body c))\<bar> > kThreshold, RUNNING)]"

text \<open>What \<open>determineState\<close> reads of a character: its flags, the recorded override, whether
  a weapon is equipped, and the velocity of the body.\<close>

definition stateInputs :: "Character \<Rightarrow> bool list \<times> State option \<times> real \<times> real" where
  "stateInputs c =
     ([isSetToKill c, isGettingUpFromFalling c, isAttacking c, isDodgingBackward c,
       isDodgingForward c, isJumping c, isCrouching c, isStartRunning c, isStopRunning c,
       equipmentSlots c WEAPON_SLOT = None],
      overridingAttackState c, linearVelocity (body c))"

definition fallingCharacter :: Character where
  "fallingCharacter =
     exampleCharacter\<lparr>isJumping := True, body := exampleBody\<lparr>linearVelocity := (0.5, - 3)\<rparr>\<rparr>"

text \<open>The thresholds of the \<open>n\<close> levels from \<open>l\<close> on, summed.\<close>

definition thresholdSum :: "(int \<Rightarrow> int) \<Rightarrow> int \<Rightarrow> nat \<Rightarrow> int" where
  "thresholdSum tbl l n = (\<Sum>i<n. tbl (l + int i))"

definition exampleExpTable :: "int \<Rightarrow> int" where
  "exampleExpTable l = (if l \<le> 1 then 100 else 150)"

section \<open>Concrete worlds\<close>

definition potionProfile :: ConsumableProfile where
  "potionProfile =
     \<lparr>restoreHealth = 20, restoreMagicka = 0, restoreStamina = 0, bonusPhysicalDamage = 0,
      bonusStr = 0, bonusDex = 0, bonusInt = 0, bonusLuk = 0, bonusMoveSpeed = 0,
      bonusJumpHeight = 0\<rparr>"

text \<open>
  The item objects: two potion objects (addresses 7 and 8) of one definition, a sword (10)
  and a dagger (11), both weapons; every other address holds a coin.
\<close>

definition exampleItems :: "item_ref \<Rightarrow> Item" where
  "exampleItems r =
     (if r = 7 \<or> r = 8
      then \<lparr>jsonFileName = ''potion.json'', itemType = 1, amount = 0,
            kind = ConsumableObj potionProfile\<rparr>
      else if r = 10
      then \<lparr>jsonFileName = ''sword.json'', itemType = 0, amount = 0,
            kind = EquipmentObj WEAPON_SLOT\<rparr>
      else if r = 11
      then \<lparr>jsonFileName = ''dagger.json'', itemType = 0, amount = 0,
            kind = EquipmentObj WEAPON_SLOT\<rparr>
      else \<lparr>jsonFileName = ''gold_coin.json'', itemType = 2, amount = 0, kind = ItemObj\<rparr>)"

definition exampleWorld :: World where
  "exampleWorld =
     \<lparr>chars = (\<lambda>i. exampleCharacter), items = exampleItems, callbacks = [],
      notifications = []\<rparr>"

text \<open>The example world with the horizontal velocity of character 1 set.\<close>

definition movingWorld :: "real \<Rightarrow> World" where
  "movingWorld vx =
     updChar 1 (\<lambda>c. c\<lparr>body := (body c)\<lparr>linearVelocity := (vx, 0)\<rparr>\<rparr>) exampleWorld"

text \<open>What a call of \<open>moveLeft\<close> or \<open>moveRight\<close> leaves behind.\<close>

definition impulsesOf :: "World \<Rightarrow> cid \<Rightarrow> (real \<times> real) list" where
  "impulsesOf w this = appliedImpulses (body (chars w this))"

definition velocityX :: "World \<Rightarrow> cid \<Rightarrow> real" where
  "velocityX w this = fst (linearVelocity (body (chars w this)))"

definition canMove :: "World \<Rightarrow> cid \<Rightarrow> bool" where
  "canMove w this = (\<not> isCrouching (chars w this) \<and> \<not> isGettingUpFromFalling (chars w this))"

text \<open>The slots and the attached fixture addresses of a character.\<close>

definition fixtureSlots ::
  "Character \<Rightarrow> fixture_ref option \<times> fixture_ref option \<times> fixture_ref option \<times> fixture_ref list" where
  "fixtureSlots c =
     (fixtures c BODY, fixtures c FEET, fixtures c WEAPON, map fst (fixtureList (body c)))"

definition fixtureFilters :: "Character \<Rightarrow> (fixture_ref \<times> int \<times> int) list" where
  "fixtureFilters c =
     map (\<lambda>p. (fst p, categoryBits (snd p), maskBits (snd p))) (fixtureList (body c))"

text \<open>
  A world for combat: character 1 is alone; character 2 leads a party whose member is
  character 3; both have character 1 in range and are locked onto it.
\<close>

definition attackerParty :: Party where
  "attackerParty = \<lparr>leader = 2, members = {3}\<rparr>"

definition attacker :: Character where
  "attacker =
     exampleCharacter\<lparr>inRangeTargets := {1}, lockedOnTarget := Some 1, party := Some attackerParty\<rparr>"

definition combatWorld :: World where
  "combatWorld =
     exampleWorld\<lparr>chars := (\<lambda>i. if i = 2 \<or> i = 3 then attacker else exampleCharacter)\<rparr>"

text \<open>What scenario 1 of the specification looks at, after a call that may fail.\<close>

definition damageOutcome ::
  "error + (bool \<times> World) \<Rightarrow> error + (bool \<times> int \<times> bool \<times> bool)" where
  "damageOutcome r =
     map_sum id
       (\<lambda>p. (fst p, getHealth (snd p) 1, isSetToKill (chars (snd p) 1),
             1 \<in> inRangeTargets (chars (snd p) 2) \<union> inRangeTargets (chars (snd p) 3)))
       r"

text \<open>The BODY slot of a character holds a fixture that is attached to its body.\<close>

definition bodyFixtureAttached :: "Character \<Rightarrow> bool" where
  "bodyFixtureAttached c =
     (case fixtures c BODY of
        None \<Rightarrow> False
      | Some f \<Rightarrow> map_of (fixtureList (body c)) f \<noteq> None)"

text \<open>A party of three: character 2 leads, characters 3 and 4 are its members.\<close>

definition trioParty :: Party where
  "trioParty = \<lparr>leader = 2, members = {3, 4}\<rparr>"

definition partyWorld :: World where
  "partyWorld =
     exampleWorld\<lparr>chars := (\<lambda>i. if i = 2 \<or> i = 3 \<or> i = 4
                                then exampleCharacter\<lparr>party := Some trioParty\<rparr>
                                else exampleCharacter)\<rparr>"

definition lockOnOutcome :: "cid list \<Rightarrow> error + (bool \<times> World) \<Rightarrow> error + cid option list" where
  "lockOnOutcome xs r = map_sum id (\<lambda>p. map (\<lambda>x. lockedOnTarget (chars (snd p) x)) xs) r"

section \<open>Runs of operations on health\<close>

text \<open>
  Damage receipt, regeneration (\<open>Character::update\<close> calls \<open>regenHealth\<close> every five seconds)
  and consumable use, applied in order to one character; a failure ends the run.
\<close>

datatype HealthOp = DamageFrom cid int | Regen int | UseConsumable item_ref

fun applyHealthOp :: "Constants \<Rightarrow> cid \<Rightarrow> HealthOp \<Rightarrow> World \<Rightarrow> error + World" where
  "applyHealthOp K this (DamageFrom src d) w = map_sum id snd (receiveDamage K w this (Some src) d)"
| "applyHealthOp K this (Regen deltaHealth) w = Inr (updChar this (regenHealth deltaHealth) w)"
| "applyHealthOp K this (UseConsumable r) w = useItem w this r"

fun runHealthOps :: "Constants \<Rightarrow> cid \<Rightarrow> HealthOp list \<Rightarrow> World \<Rightarrow> error + World" where
  "runHealthOps K this [] w = Inr w"
| "runHealthOps K this (hop # hops) w =
     (case applyHealthOp K this hop w of
        Inl e \<Rightarrow> Inl e
      | Inr w' \<Rightarrow> runHealthOps K this hops w')"

text \<open>
  The amount of an operation is not negative, and adding it to the full health stays within
  the range of \<open>int\<close>.
\<close>

fun amountOk :: "World \<Rightarrow> cid \<Rightarrow> HealthOp \<Rightarrow> bool" where
  "amountOk w this (DamageFrom src d) = (0 \<le> d \<and> isInt32 d)"
| "amountOk w this (Regen deltaHealth) =
     (0 \<le> deltaHealth \<and> isInt32 (fullHealth (characterProfile (chars w this)) + deltaHealth))"
| "amountOk w this (UseConsumable r) =
     (case kind (items w r) of
        ConsumableObj cp \<Rightarrow>
          0 \<le> restoreHealth cp \<and>
          isInt32 (fullHealth (characterProfile (chars w this)) + restoreHealth cp)
      | _ \<Rightarrow> True)"

fun isDamage :: "HealthOp \<Rightarrow> bool" where
  "isDamage (DamageFrom src d) = True"
| "isDamage (Regen deltaHealth) = False"
| "isDamage (UseConsumable r) = False"

definition healthInRange :: "World \<Rightarrow> cid \<Rightarrow> bool" where
  "healthInRange w this =
     (0 \<le> getHealth w this \<and> getHealth w this \<le> fullHealth (characterProfile (chars w this)))"

definition healthOutcome :: "error + World \<Rightarrow> error + (int \<times> bool)" where
  "healthOutcome r = map_sum id (\<lambda>w. (getHealth w 1, isSetToKill (chars w 1))) r"

text \<open>The combat world after character 1 has picked up one potion (the object at 7).\<close>

definition potionWorld :: World where
  "potionWorld = addItem combatWorld 1 (Some 7) 1"

definition deadSourceWorld :: World where
  "deadSourceWorld = updChar 2 (\<lambda>c. c\<lparr>isSetToKill := True\<rparr>) combatWorld"

definition invincibleWorld :: World where
  "invincibleWorld = updChar 1 (\<lambda>c. c\<lparr>isInvincible := True\<rparr>) combatWorld"

section \<open>Runs of operations on the item store\<close>

datatype ItemOp = AddOp item_ref int | RemoveOp item_ref int

fun applyItemOp :: "cid \<Rightarrow> ItemOp \<Rightarrow> World \<Rightarrow> error + World" where
  "applyItemOp this (AddOp r a) w = Inr (addItem w this (Some r) a)"
| "applyItemOp this (RemoveOp r a) w = removeItem w this (Some r) a"

fun runItemOps :: "cid \<Rightarrow> ItemOp list \<Rightarrow> World \<Rightarrow> error + World" where
  "runItemOps this [] w = Inr w"
| "runItemOps this (iop # iops) w =
     (case applyItemOp this iop w of
        Inl e \<Rightarrow> Inl e
      | Inr w' \<Rightarrow> runItemOps this iops w')"

fun opRef :: "ItemOp \<Rightarrow> item_ref" where
  "opRef (AddOp r a) = r"
| "opRef (RemoveOp r a) = r"

fun addedAmount :: "ItemOp \<Rightarrow> int" where
  "addedAmount (AddOp r a) = a"
| "addedAmount (RemoveOp r a) = 0"

fun removedAmount :: "ItemOp \<Rightarrow> int" where
  "removedAmount (AddOp r a) = 0"
| "removedAmount (RemoveOp r a) = a"

text \<open>The sum of all added amounts minus the sum of all removed amounts.\<close>

definition netAmount :: "ItemOp list \<Rightarrow> int" where
  "netAmount iops = sum_list (map addedAmount iops) - sum_list (map removedAmount iops)"

text \<open>
  Starting with \<open>q\<close> owned: every amount is a quantity (not negative), no removal exceeds
  what is owned at that point, and what is owned stays within the range of \<open>int\<close>.
\<close>

fun withinOwned :: "int \<Rightarrow> ItemOp list \<Rightarrow> bool" where
  "withinOwned q [] = True"
| "withinOwned q (AddOp r a # iops) = (0 \<le> a \<and> isInt32 (q + a) \<and> withinOwned (q + a) iops)"
| "withinOwned q (RemoveOp r a # iops) = (0 \<le> a \<and> a \<le> q \<and> withinOwned (q - a) iops)"

text \<open>
  The instances of an item identifier in the store of a character: the instance the owning
  map holds for it, and the instances in the inventory that carry it.
\<close>

definition storeInstances :: "World \<Rightarrow> cid \<Rightarrow> string \<Rightarrow> item_ref set" where
  "storeInstances w this j =
     {r. itemMapper (chars w this) j = Some r} \<union>
     {r. (\<exists>ty. r \<in> inventory (chars w this) ty) \<and> jsonFileName (items w r) = j}"

text \<open>
  The invariant of the store for one identifier \<open>j\<close> of item type \<open>t\<close>, of which \<open>q\<close> are
  owned.
\<close>

definition itemInv :: "World \<Rightarrow> cid \<Rightarrow> string \<Rightarrow> ItemType \<Rightarrow> int \<Rightarrow> bool" where
  "itemInv w this j t q =
     (0 \<le> q \<and> isInt32 q \<and>
      (case itemMapper (chars w this) j of
         None \<Rightarrow>
           q = 0 \<and> (\<forall>ty. \<forall>r \<in> inventory (chars w this) ty. jsonFileName (items w r) \<noteq> j)
       | Some e \<Rightarrow>
           jsonFileName (items w e) = j \<and> itemType (items w e) = t \<and> amount (items w e) = q \<and>
           (\<forall>ty. \<forall>r \<in> inventory (chars w this) ty.
              jsonFileName (items w r) = j \<longrightarrow> r = e \<and> ty = t) \<and>
           (0 < q \<longrightarrow> e \<in> inventory (chars w this) t)))"

definition itemOutcome :: "error + World \<Rightarrow> error + (int \<times> item_ref option \<times> item_ref set)" where
  "itemOutcome r =
     map_sum id
       (\<lambda>w. (getItemAmount w 1 ''potion.json'', itemMapper (chars w 1) ''potion.json'',
             inventory (chars w 1) 1))
       r"

text \<open>
  Character 1 of the example world with the dagger (the object at 11) equipped as weapon
  and \<open>n\<close> swords (the object at 10) in the inventory.
\<close>

definition armedWorld :: "int \<Rightarrow> World" where
  "armedWorld n =
     updChar 1
       (\<lambda>c. c\<lparr>itemMapper := [''sword.json'' \<mapsto> 10, ''dagger.json'' \<mapsto> 11],
               inventory := (\<lambda>ty. if ty = 0 then {10} else {}),
               equipmentSlots := (\<lambda>ty. if ty = WEAPON_SLOT then Some 11 else None)\<rparr>)
       (setAmount 10 n exampleWorld)"

definition equipOutcome ::
  "error + World \<Rightarrow> error + (item_ref option \<times> item_ref set \<times> int \<times> int)" where
  "equipOutcome r =
     map_sum id
       (\<lambda>w. (equipmentSlots (chars w 1) WEAPON_SLOT, inventory (chars w 1) 0,
             amount (items w 10), amount (items w 11)))
       r"

text \<open>
  The combat world with a further character 5, in no party, that has character 1 in range
  and is locked onto it.
\<close>

definition trackerWorld :: World where
  "trackerWorld =
     updChar 5 (\<lambda>c. c\<lparr>inRangeTargets := {1}, lockedOnTarget := Some 1\<rparr>) combatWorld"

definition trackerOutcome ::
  "error + (bool \<times> World) \<Rightarrow> error + (int \<times> bool \<times> bool \<times> bool \<times> cid option)" where
  "trackerOutcome r =
     map_sum id
       (\<lambda>p. (getHealth (snd p) 1, isSetToKill (chars (snd p) 1),
             1 \<in> inRangeTargets (chars (snd p) 2) \<union> inRangeTargets (chars (snd p) 3),
             1 \<in> inRangeTargets (chars (snd p) 5), lockedOnTarget (chars (snd p) 5)))
       r"

section \<open>Arithmetic within range\<close>

lemma int32_id: "isInt32 x \<Longrightarrow> int32 x = x"
  by (simp add: int32_def isInt32_def)

lemma c_rem_nonneg: "0 \<le> a \<Longrightarrow> 0 < b \<Longrightarrow> c_rem a b = a mod b"
  by (cases "a = 0") (simp_all add: c_rem_def)

section \<open>The state machine\<close>

text \<open>
  C5. \<open>determineState\<close> is a function of the character's flags, the recorded override, the
  weapon slot and the body velocity alone: two characters that agree on these get the same
  state. The state it returns is the first match of the priority list KILLED, FALLING_GETUP,
  attacking variant, DODGING_BACKWARD, DODGING_FORWARD, FALLING (vertical velocity below
  -2.5), JUMPING, CROUCHING, RUNNING_START, RUNNING_STOP, RUNNING (horizontal speed above
  the float .01), with IDLE as the default.
\<close>

theorem determineState_priority:
  "determineState c = firstMatch (spec_priority c) IDLE \<and>
   (stateInputs c' = stateInputs c \<longrightarrow> determineState c' = determineState c)"
  by (simp add: determineState_def determineAttackState_def spec_priority_def
      spec_attackVariant_def stateInputs_def split: option.splits)

theorem determineState_priority_witness:
  "stateInputs (setHealth 3 fallingCharacter) = stateInputs fallingCharacter \<and>
   determineState (setHealth 3 fallingCharacter) = determineState fallingCharacter \<and>
   determineState fallingCharacter = firstMatch (spec_priority fallingCharacter) IDLE \<and>
   determineState fallingCharacter = FALLING"
  using determineState_priority [of fallingCharacter "setHealth 3 fallingCharacter"]
  by (simp add: determineState_def stateInputs_def fallingCharacter_def exampleCharacter_def
      exampleBody_def setHealth_def)

section \<open>The attack animation index\<close>

lemma runAnimation_other:
  "s \<noteq> ATTACKING \<Longrightarrow>
   runAnimation s loop c =
     Inr (c\<lparr>spriteAction := Some (if loop then RepeatForever (BodyAnimation s)
                                    else Repeat (BodyAnimation s) 1)\<rparr>)"
  by (simp add: runAnimation_def)

lemma runAnimation_ATTACKING:
  assumes "0 \<le> attackAnimationIdx c"
    and "attackAnimationIdx c < 1 + int (extraAttackAnimationsCount c)"
    and "isInt32 (1 + int (extraAttackAnimationsCount c))"
  shows "\<exists>c'. runAnimation ATTACKING loop c = Inr c' \<and>
              extraAttackAnimationsCount c' = extraAttackAnimationsCount c \<and>
              attackAnimationIdx c' =
                (attackAnimationIdx c + 1) mod (1 + int (extraAttackAnimationsCount c))"
proof -
  have m: "kAttackAnimationIdxMax c = 1 + int (extraAttackAnimationsCount c)"
    using assms(3) by (simp add: kAttackAnimationIdxMax_def int32_id)
  have i: "int32 (attackAnimationIdx c + 1) = attackAnimationIdx c + 1"
    using assms by (intro int32_id) (simp add: isInt32_def)
  have "\<exists>a. getBodyAttackAnimation c = Inr a"
    using assms(1,2) m by (simp add: getBodyAttackAnimation_def)
  then obtain a where a: "getBodyAttackAnimation c = Inr a" ..
  show ?thesis
    using a m i assms(1)
    by (simp add: runAnimation_def kAttackAnimationIdxMax_def c_rem_nonneg)
qed

lemma dispatchAll_idx:
  assumes "0 \<le> attackAnimationIdx c"
    and "attackAnimationIdx c < 1 + int (extraAttackAnimationsCount c)"
    and "isInt32 (1 + int (extraAttackAnimationsCount c))"
  shows "\<exists>c'. dispatchAll ss c = Inr c' \<and>
              extraAttackAnimationsCount c' = extraAttackAnimationsCount c \<and>
              attackAnimationIdx c' =
                (attackAnimationIdx c + int (count_list ss ATTACKING))
                  mod (1 + int (extraAttackAnimationsCount c))"
  using assms
proof (induction ss arbitrary: c)
  case Nil
  then show ?case by simp
next
  case (Cons s ss)
  show ?case
  proof (cases "s = ATTACKING")
    case True
    from runAnimation_ATTACKING [OF Cons.prems, of False]
    obtain c1 where c1: "runAnimation ATTACKING False c = Inr c1"
      "extraAttackAnimationsCount c1 = extraAttackAnimationsCount c"
      "attackAnimationIdx c1 =
         (attackAnimationIdx c + 1) mod (1 + int (extraAttackAnimationsCount c))"
      by blast
    have "0 \<le> attackAnimationIdx c1"
      and "attackAnimationIdx c1 < 1 + int (extraAttackAnimationsCount c1)"
      and "isInt32 (1 + int (extraAttackAnimationsCount c1))"
      using c1 Cons.prems(3) by simp_all
    from Cons.IH [OF this] obtain c' where c': "dispatchAll ss c1 = Inr c'"
      "extraAttackAnimationsCount c' = extraAttackAnimationsCount c1"
      "attackAnimationIdx c' =
         (attackAnimationIdx c1 + int (count_list ss ATTACKING))
           mod (1 + int (extraAttackAnimationsCount c1))"
      by blast
    have "attackAnimationIdx c' =
            (attackAnimationIdx c + int (count_list (s # ss) ATTACKING))
              mod (1 + int (extraAttackAnimationsCount c))"
      using c'(3) c1(2,3) True
        mod_add_left_eq [of "attackAnimationIdx c + 1" "1 + int (extraAttackAnimationsCount c)"
          "int (count_list ss ATTACKING)"]
      by (simp add: add.assoc add.commute add.left_commute)
    then show ?thesis using c1 c' True by simp
  next
    case False
    let ?c1 = "c\<lparr>spriteAction := Some (Repeat (BodyAnimation s) 1)\<rparr>"
    have r: "runAnimation s False c = Inr ?c1"
      using False by (simp add: runAnimation_other)
    have "0 \<le> attackAnimationIdx ?c1"
      and "attackAnimationIdx ?c1 < 1 + int (extraAttackAnimationsCount ?c1)"
      and "isInt32 (1 + int (extraAttackAnimationsCount ?c1))"
      using Cons.prems by simp_all
    from Cons.IH [OF this] show ?thesis using r False by simp
  qed
qed

lemma count_list_replicate: "count_list (replicate k x) x = k"
  by (induction k) simp_all

text \<open>
  C6, as the code has it. With the index within \<open>[0, 1 + extraAttackAnimationsCount)\<close> and
  that count within the range of \<open>int\<close>, any run of dispatches succeeds and leaves the index
  at (old index + number of dispatches of \<open>State::ATTACKING\<close> in the run) modulo
  \<open>1 + extraAttackAnimationsCount\<close>, again within the range: the index advances once per
  \<open>ATTACKING\<close> dispatch, wraps, and is left alone by a dispatch of any other state, the
  other attack variants included. From index 0, \<open>k\<close> consecutive \<open>ATTACKING\<close> dispatches
  leave it at \<open>k mod (1 + extraAttackAnimationsCount)\<close>.
\<close>

theorem attackAnimationIdx_rotation:
  assumes "0 \<le> attackAnimationIdx c"
    and "attackAnimationIdx c < 1 + int (extraAttackAnimationsCount c)"
    and "isInt32 (1 + int (extraAttackAnimationsCount c))"
  shows "(\<exists>c'. dispatchAll ss c = Inr c' \<and>
              attackAnimationIdx c' =
                (attackAnimationIdx c + int (count_list ss ATTACKING))
                  mod (1 + int (extraAttackAnimationsCount c)) \<and>
              0 \<le> attackAnimationIdx c' \<and>
              attackAnimationIdx c' < 1 + int (extraAttackAnimationsCount c)) \<and>
         (attackAnimationIdx c = 0 \<longrightarrow>
           (\<exists>c'. dispatchAll (replicate k ATTACKING) c = Inr c' \<and>
              attackAnimationIdx c' = int k mod (1 + int (extraAttackAnimationsCount c))))"
proof (intro conjI impI)
  from dispatchAll_idx [OF assms, of ss]
  show "\<exists>c'. dispatchAll ss c = Inr c' \<and>
              attackAnimationIdx c' =
                (attackAnimationIdx c + int (count_list ss ATTACKING))
                  mod (1 + int (extraAttackAnimationsCount c)) \<and>
              0 \<le> attackAnimationIdx c' \<and>
              attackAnimationIdx c' < 1 + int (extraAttackAnimationsCount c)"
    by auto
next
  assume z: "attackAnimationIdx c = 0"
  from dispatchAll_idx [OF assms, of "replicate k ATTACKING"] z
  show "\<exists>c'. dispatchAll (replicate k ATTACKING) c = Inr c' \<and>
              attackAnimationIdx c' = int k mod (1 + int (extraAttackAnimationsCount c))"
    by (auto simp: count_list_replicate)
qed

theorem attackAnimationIdx_rotation_witness:
  "0 \<le> attackAnimationIdx exampleCharacter \<and>
   attackAnimationIdx exampleCharacter < 1 + int (extraAttackAnimationsCount exampleCharacter) \<and>
   isInt32 (1 + int (extraAttackAnimationsCount exampleCharacter)) \<and>
   map_sum id attackAnimationIdx
     (dispatchAll [ATTACKING, ATTACKING_UNARMED, ATTACKING, ATTACKING, ATTACKING]
        exampleCharacter) = Inr 1 \<and>
   map_sum id attackAnimationIdx (dispatchAll (replicate 2 ATTACKING) exampleCharacter) = Inr 2"
proof -
  have h: "0 \<le> attackAnimationIdx exampleCharacter"
    "attackAnimationIdx exampleCharacter < 1 + int (extraAttackAnimationsCount exampleCharacter)"
    "isInt32 (1 + int (extraAttackAnimationsCount exampleCharacter))"
    by (simp_all add: exampleCharacter_def isInt32_def)
  from attackAnimationIdx_rotation
    [OF h, of "[ATTACKING, ATTACKING_UNARMED, ATTACKING, ATTACKING, ATTACKING]" 2]
  show ?thesis
    using h by (auto simp: exampleCharacter_def numeral_2_eq_2)
qed

text \<open>
  C6 as stated fails: a dispatch of the attack state \<open>ATTACKING_UNARMED\<close> leaves the index
  at 0, where advancing once (with three attack animations) would give 1.
\<close>

theorem attackAnimationIdx_counterexample:
  "map_sum id attackAnimationIdx (runAnimation ATTACKING_UNARMED False exampleCharacter) = Inr 0 \<and>
   (attackAnimationIdx exampleCharacter + 1)
     mod (1 + int (extraAttackAnimationsCount exampleCharacter)) = 1"
  by (simp add: runAnimation_def exampleCharacter_def)

section \<open>Experience\<close>

lemma thresholdSum_0: "thresholdSum tbl l 0 = 0"
  by (simp add: thresholdSum_def)

lemma thresholdSum_Suc: "thresholdSum tbl l (Suc n) = tbl l + thresholdSum tbl (l + 1) n"
  unfolding thresholdSum_def
  by (subst sum.lessThan_Suc_shift) (simp add: add.assoc add.commute add.left_commute)

lemma addExpLoop_returns:
  assumes pos: "\<And>l. 0 < tbl l"
  shows "isInt32 e \<Longrightarrow> isInt32 l \<Longrightarrow> l + max 0 e < 2147483648 \<Longrightarrow>
         \<exists>n. addExpLoop tbl e l = Some (e - thresholdSum tbl l n, l + int n) \<and>
             e - thresholdSum tbl l n < tbl (l + int n) \<and>
             (\<forall>m<n. thresholdSum tbl l (Suc m) \<le> e)"
proof (induction "nat e" arbitrary: e l rule: less_induct)
  case less
  show ?case
  proof (cases "tbl l \<le> e")
    case False
    then have "addExpLoop tbl e l = Some (e, l)"
      by (subst addExpLoop.simps) simp
    with False show ?thesis
      by (intro exI [of _ 0]) (simp add: thresholdSum_0)
  next
    case True
    let ?e = "e - tbl l" and ?l = "l + 1"
    have e0: "0 < e" using True pos [of l] by linarith
    have e': "0 \<le> ?e" "?e < e" using True pos [of l] by simp_all
    have ie: "isInt32 ?e" using less.prems(1) e' by (simp add: isInt32_def)
    have il: "isInt32 ?l" using less.prems(2,3) e0 by (simp add: isInt32_def)
    have b: "?l + max 0 ?e < 2147483648" using less.prems(3) e' pos [of l] by simp
    have "nat ?e < nat e" using e' e0 by simp
    from less.hyps [OF this ie il b] obtain n where n:
      "addExpLoop tbl ?e ?l = Some (?e - thresholdSum tbl ?l n, ?l + int n)"
      "?e - thresholdSum tbl ?l n < tbl (?l + int n)"
      "\<forall>m<n. thresholdSum tbl ?l (Suc m) \<le> ?e"
      by blast
    have step: "addExpLoop tbl e l = addExpLoop tbl ?e ?l"
      using True by (subst addExpLoop.simps) (simp add: int32_id ie il)
    have crossed: "\<forall>m<Suc n. thresholdSum tbl l (Suc m) \<le> e"
    proof (intro allI impI)
      fix m assume m: "m < Suc n"
      show "thresholdSum tbl l (Suc m) \<le> e"
      proof (cases m)
        case 0
        then show ?thesis using True by (simp add: thresholdSum_Suc thresholdSum_0)
      next
        case (Suc m')
        then have "thresholdSum tbl ?l (Suc m') \<le> ?e" using n(3) m by simp
        then show ?thesis using Suc by (simp add: thresholdSum_Suc [of tbl l])
      qed
    qed
    show ?thesis
      using step n(1,2) crossed
      by (intro exI [of _ "Suc n"])
         (simp add: thresholdSum_Suc [of tbl l] add.assoc add.commute add.left_commute)
  qed
qed

text \<open>
  C10. With every threshold of the experience table positive, a gain that is not negative,
  and sums within the range of \<open>int\<close> (the experience plus the gain, and the level plus
  that sum), \<open>addExp\<close> returns: for some number \<open>n\<close> of levels gained the level has grown by
  \<open>n\<close>, the experience is the old experience plus the gain minus the thresholds of the \<open>n\<close>
  levels gained, it is below the threshold of the new level, and each of the \<open>n\<close> thresholds
  was reached in turn. Nothing else of the character changes.
\<close>

theorem addExp_levels:
  assumes "\<forall>l. 0 < getNextLevelExp l"
    and "0 \<le> gain"
    and "isInt32 (exp_pts (characterProfile c) + gain)"
    and "isInt32 (level (characterProfile c))"
    and "level (characterProfile c) + max 0 (exp_pts (characterProfile c) + gain) < 2147483648"
  shows "\<exists>n. addExp getNextLevelExp gain c =
               Some (c\<lparr>characterProfile := (characterProfile c)
                      \<lparr>exp_pts := exp_pts (characterProfile c) + gain
                                  - thresholdSum getNextLevelExp (level (characterProfile c)) n,
                       level := level (characterProfile c) + int n\<rparr>\<rparr>) \<and>
             exp_pts (characterProfile c) + gain
               - thresholdSum getNextLevelExp (level (characterProfile c)) n
               < getNextLevelExp (level (characterProfile c) + int n) \<and>
             (\<forall>m<n. thresholdSum getNextLevelExp (level (characterProfile c)) (Suc m)
                      \<le> exp_pts (characterProfile c) + gain)"
proof -
  have pos: "\<And>l. 0 < getNextLevelExp l" using assms(1) by simp
  from addExpLoop_returns [of getNextLevelExp, OF pos assms(3) assms(4) assms(5)]
  obtain n where n:
    "addExpLoop getNextLevelExp (exp_pts (characterProfile c) + gain) (level (characterProfile c)) =
       Some (exp_pts (characterProfile c) + gain
               - thresholdSum getNextLevelExp (level (characterProfile c)) n,
             level (characterProfile c) + int n)"
    "exp_pts (characterProfile c) + gain
       - thresholdSum getNextLevelExp (level (characterProfile c)) n
       < getNextLevelExp (level (characterProfile c) + int n)"
    "\<forall>m<n. thresholdSum getNextLevelExp (level (characterProfile c)) (Suc m)
             \<le> exp_pts (characterProfile c) + gain"
    by blast
  show ?thesis
    using n assms(3) by (intro exI [of _ n]) (simp add: addExp_def int32_id)
qed

theorem addExp_levels_witness:
  "(\<forall>l. 0 < exampleExpTable l) \<and>
   isInt32 (exp_pts (characterProfile exampleCharacter) + 270) \<and>
   isInt32 (level (characterProfile exampleCharacter)) \<and>
   map_option (\<lambda>c. (exp_pts (characterProfile c), level (characterProfile c)))
     (addExp exampleExpTable 270 exampleCharacter) = Some (20, 3) \<and>
   thresholdSum exampleExpTable 1 2 = 250 \<and>
   20 < exampleExpTable 3"
proof -
  have h: "\<forall>l. 0 < exampleExpTable l" "(0::int) \<le> 270"
    "isInt32 (exp_pts (characterProfile exampleCharacter) + 270)"
    "isInt32 (level (characterProfile exampleCharacter))"
    "level (characterProfile exampleCharacter)
       + max 0 (exp_pts (characterProfile exampleCharacter) + 270) < 2147483648"
    by (simp_all add: exampleExpTable_def exampleCharacter_def exampleProfile_def isInt32_def)
  have r: "map_option (\<lambda>c. (exp_pts (characterProfile c), level (characterProfile c)))
             (addExp exampleExpTable 270 exampleCharacter) = Some (20, 3)"
    by (simp add: addExp_def addExpLoop.simps exampleExpTable_def exampleCharacter_def
        exampleProfile_def int32_def)
  have s: "thresholdSum exampleExpTable 1 2 = 250"
    by (simp add: thresholdSum_def exampleExpTable_def lessThan_Suc numeral_2_eq_2)
  from addExp_levels [OF h] have "\<exists>n. addExp exampleExpTable 270 exampleCharacter =
      Some (exampleCharacter\<lparr>characterProfile := (characterProfile exampleCharacter)
             \<lparr>exp_pts := exp_pts (characterProfile exampleCharacter) + 270
                 - thresholdSum exampleExpTable (level (characterProfile exampleCharacter)) n,
              level := level (characterProfile exampleCharacter) + int n\<rparr>\<rparr>)"
    by blast
  then show ?thesis
    using h r s by (simp add: exampleExpTable_def)
qed

section \<open>Movement\<close>

text \<open>
  C8, as the code has it. \<open>moveLeft\<close> turns the character to the left and, unless it is
  crouching or getting up from a fall, applies the impulse \<open>(-moveSpeed, 0)\<close> exactly when
  the horizontal velocity is at least \<open>-2 * moveSpeed\<close>; \<open>moveRight\<close> turns it to the right
  and applies \<open>(moveSpeed, 0)\<close> exactly when the velocity is at most \<open>2 * moveSpeed\<close>. The
  bound is on the signed velocity in the direction of the move and is inclusive. Either call
  sets the start-running flag, and schedules its clearing after the duration of the
  \<open>RUNNING_START\<close> animation, exactly when the horizontal velocity is zero at the call and
  the character is neither crouching nor getting up.
\<close>

theorem move_impulse:
  "isFacingRight (chars (moveLeft w this) this) = False \<and>
   isFacingRight (chars (moveRight w this) this) = True \<and>
   impulsesOf (moveLeft w this) this =
     impulsesOf w this @
       (if canMove w this \<and> velocityX w this \<ge> - moveSpeed (characterProfile (chars w this)) * 2
        then [(- moveSpeed (characterProfile (chars w this)), 0)] else []) \<and>
   impulsesOf (moveRight w this) this =
     impulsesOf w this @
       (if canMove w this \<and> velocityX w this \<le> moveSpeed (characterProfile (chars w this)) * 2
        then [(moveSpeed (characterProfile (chars w this)), 0)] else []) \<and>
   isStartRunning (chars (moveLeft w this) this) =
     (isStartRunning (chars w this) \<or> (canMove w this \<and> velocityX w this = 0)) \<and>
   isStartRunning (chars (moveRight w this) this) =
     (isStartRunning (chars w this) \<or> (canMove w this \<and> velocityX w this = 0)) \<and>
   callbacks (moveLeft w this) =
     callbacks w @
       (if canMove w this \<and> velocityX w this = 0
        then [(ClearStartRunning this, bodyAnimationDuration (chars w this) RUNNING_START)]
        else []) \<and>
   callbacks (moveRight w this) =
     callbacks w @
       (if canMove w this \<and> velocityX w this = 0
        then [(ClearStartRunning this, bodyAnimationDuration (chars w this) RUNNING_START)]
        else [])"
  by (simp add: moveLeft_def moveRight_def startRunning_def runAfter_def updChar_def
      ApplyLinearImpulseToCenter_def impulsesOf_def velocityX_def canMove_def Let_def)

theorem move_impulse_witness:
  "impulsesOf (moveRight (movingWorld 0) 1) 1 = [(1, 0)] \<and>
   isStartRunning (chars (moveRight (movingWorld 0) 1) 1) \<and>
   callbacks (moveRight (movingWorld 0) 1) = [(ClearStartRunning 1, 0.5)] \<and>
   impulsesOf (moveRight (movingWorld 3) 1) 1 = [] \<and>
   impulsesOf (moveLeft (movingWorld 3) 1) 1 = [(- 1, 0)] \<and>
   \<not> isStartRunning (chars (moveLeft (movingWorld 3) 1) 1)"
  using move_impulse [of "movingWorld 0" 1] move_impulse [of "movingWorld 3" 1]
  by (simp add: impulsesOf_def velocityX_def canMove_def updChar_def
      movingWorld_def exampleWorld_def exampleCharacter_def exampleBody_def exampleProfile_def)

text \<open>
  C8 as stated fails: moving to the left at exactly twice the move speed (the magnitude is
  at the bound), \<open>moveLeft\<close> still applies its impulse; and so it does when the body moves to
  the right at three times the move speed.
\<close>

theorem move_impulse_counterexample:
  "\<bar>velocityX (movingWorld (- 2)) 1\<bar> \<ge> 2 * moveSpeed (characterProfile (chars (movingWorld (- 2)) 1)) \<and>
   impulsesOf (moveLeft (movingWorld (- 2)) 1) 1 = [(- 1, 0)] \<and>
   \<bar>velocityX (movingWorld 3) 1\<bar> \<ge> 2 * moveSpeed (characterProfile (chars (movingWorld 3) 1)) \<and>
   impulsesOf (moveLeft (movingWorld 3) 1) 1 = [(- 1, 0)]"
  by (simp add: moveLeft_def moveRight_def startRunning_def runAfter_def updChar_def
      ApplyLinearImpulseToCenter_def impulsesOf_def velocityX_def canMove_def Let_def
      movingWorld_def exampleWorld_def exampleCharacter_def exampleBody_def exampleProfile_def)

section \<open>Fixtures\<close>

text \<open>
  C9 fails on the code. On a character whose BODY, FEET and WEAPON fixtures are at the
  addresses 0, 1 and 2, \<open>redefineFeetFixture\<close> destroys the BODY fixture and clears the BODY
  slot; the old FEET fixture (address 1) stays attached to the body beside the new one
  (address 3), which inherits its mask bits 96.
\<close>

theorem redefineFeetFixture_destroys_body:
  "map_sum id fixtureSlots (redefineFeetFixture exampleConstants 1 0 exampleCharacter) =
     Inr (None, Some 3, Some 2, [3, 2, 1]) \<and>
   map_sum id fixtureFilters (redefineFeetFixture exampleConstants 1 0 exampleCharacter) =
     Inr [(3, 2, 96), (2, 8, 4), (1, 2, 96)] \<and>
   fixtureSlots exampleCharacter = (Some 0, Some 1, Some 2, [2, 1, 0])"
  by (simp add: redefineFeetFixture_def DestroyFixture_def buildFixture_def fixtureSlots_def
      fixtureFilters_def exampleCharacter_def exampleBody_def exampleFixture_def
      exampleConstants_def Let_def)

section \<open>Receiving damage\<close>

lemma map_of_setBits:
  "map_of l f = Some fx \<Longrightarrow>
   map_of (map (\<lambda>p. if fst p = f then (fst p, (snd p)\<lparr>categoryBits := bits\<rparr>) else p) l) f =
     Some (fx\<lparr>categoryBits := bits\<rparr>)"
  by (induction l) auto

lemma receiveDamage_dead_source:
  "isSetToKill (chars w src) \<or> isKilled (chars w src) \<Longrightarrow>
   receiveDamage K w this (Some src) damage = Inr (False, w)"
  by (simp add: receiveDamage_def)

lemma receiveDamage_invincible:
  "\<not> isSetToKill (chars w src) \<Longrightarrow> \<not> isKilled (chars w src) \<Longrightarrow>
   isInvincible (chars w this) \<Longrightarrow>
   receiveDamage K w this (Some src) damage = Inr (True, w)"
  by (simp add: receiveDamage_def)

lemma receiveDamage_survive:
  assumes "\<not> isSetToKill (chars w src)" "\<not> isKilled (chars w src)"
    and "\<not> isInvincible (chars w this)"
    and "isInt32 (getHealth w this - damage)" "0 < getHealth w this - damage"
  shows "\<exists>w'. receiveDamage K w this (Some src) damage = Inr (True, w') \<and>
           getHealth w' this = getHealth w this - damage \<and>
           isTakingDamage (chars w' this) \<and>
           callbacks w' = callbacks w @ [(ClearTakingDamage this, 0.25)] \<and>
           isSetToKill (chars w' this) = isSetToKill (chars w this) \<and>
           (\<forall>x. inRangeTargets (chars w' x) = inRangeTargets (chars w x) \<and>
                lockedOnTarget (chars w' x) = lockedOnTarget (chars w x) \<and>
                body (chars w' x) = body (chars w x))"
  using assms
  by (simp add: receiveDamage_def int32_def isInt32_def getHealth_def setHealth_def updChar_def
      runAfter_def notify_def Let_def)

lemma receiveDamage_kill:
  assumes "\<not> isSetToKill (chars w src)" "\<not> isKilled (chars w src)"
    and "\<not> isInvincible (chars w this)"
    and "isInt32 (getHealth w this - damage)" "getHealth w this - damage \<le> 0"
    and "fixtures (chars w this) BODY = Some f"
    and "map_of (fixtureList (body (chars w this))) f = Some fx"
  shows "\<exists>w'. receiveDamage K w this (Some src) damage = Inr (True, w') \<and>
           getHealth w' this = 0 \<and>
           isTakingDamage (chars w' this) \<and>
           callbacks w' = callbacks w @ [(ClearTakingDamage this, 0.25)] \<and>
           isSetToKill (chars w' this) \<and>
           map_of (fixtureList (body (chars w' this))) f =
             Some (fx\<lparr>categoryBits := kDestroyed K\<rparr>) \<and>
           (\<forall>x. inRangeTargets (chars w' x) =
                  (if x = src \<or> x \<in> getAllies w src then inRangeTargets (chars w x) - {this}
                   else inRangeTargets (chars w x)) \<and>
                lockedOnTarget (chars w' x) =
                  (if x \<in> getAllies w src \<and> lockedOnTarget (chars w x) = Some this then None
                   else lockedOnTarget (chars w x)))"
  using assms
  by (simp add: receiveDamage_def onZeroHealth_def int32_def isInt32_def getHealth_def
      setHealth_def updChar_def forEachChar_def getAllies_def eraseInRangeTarget_def
      clearLockOnAt_def setCategoryBits_def map_of_setBits runAfter_def notify_def Let_def)

text \<open>
  C3, as the code has it. \<open>receiveDamage\<close> from a source that is set to kill or killed
  returns false and leaves the world as it is; on an invincible receiver it returns true
  and leaves the world as it is. Otherwise (with health minus damage within the range of \<open>int\<close>) health drops by the
  damage, floored at zero, the taking-damage flag is set and its clearing is scheduled after
  0.25 seconds. If the new health is above zero, no in-range set, no lock-on, no body and
  not the set-to-kill flag changes. If it is zero (and the BODY fixture is attached), the
  receiver leaves the in-range set of the source and of every ally of the source, every ally
  locked onto the receiver loses its lock-on, all other in-range sets and lock-ons stay, the
  BODY fixture gets the destroyed category, and the set-to-kill flag is set.
\<close>

theorem receiveDamage_effects:
  "(isSetToKill (chars w src) \<or> isKilled (chars w src) \<longrightarrow>
      receiveDamage K w this (Some src) damage = Inr (False, w)) \<and>
   (\<not> isSetToKill (chars w src) \<and> \<not> isKilled (chars w src) \<and> isInvincible (chars w this) \<longrightarrow>
      receiveDamage K w this (Some src) damage = Inr (True, w)) \<and>
   (\<not> isSetToKill (chars w src) \<and> \<not> isKilled (chars w src) \<and> \<not> isInvincible (chars w this) \<and>
    isInt32 (getHealth w this - damage) \<and> 0 < getHealth w this - damage \<longrightarrow>
      (\<exists>w'. receiveDamage K w this (Some src) damage = Inr (True, w') \<and>
           getHealth w' this = getHealth w this - damage \<and>
           isTakingDamage (chars w' this) \<and>
           callbacks w' = callbacks w @ [(ClearTakingDamage this, 0.25)] \<and>
           isSetToKill (chars w' this) = isSetToKill (chars w this) \<and>
           (\<forall>x. inRangeTargets (chars w' x) = inRangeTargets (chars w x) \<and>
                lockedOnTarget (chars w' x) = lockedOnTarget (chars w x) \<and>
                body (chars w' x) = body (chars w x)))) \<and>
   (\<not> isSetToKill (chars w src) \<and> \<not> isKilled (chars w src) \<and> \<not> isInvincible (chars w this) \<and>
    isInt32 (getHealth w this - damage) \<and> getHealth w this - damage \<le> 0 \<and>
    fixtures (chars w this) BODY = Some f \<and>
    map_of (fixtureList (body (chars w this))) f = Some fx \<longrightarrow>
      (\<exists>w'. receiveDamage K w this (Some src) damage = Inr (True, w') \<and>
           getHealth w' this = 0 \<and>
           isTakingDamage (chars w' this) \<and>
           callbacks w' = callbacks w @ [(ClearTakingDamage this, 0.25)] \<and>
           isSetToKill (chars w' this) \<and>
           map_of (fixtureList (body (chars w' this))) f =
             Some (fx\<lparr>categoryBits := kDestroyed K\<rparr>) \<and>
           (\<forall>x. inRangeTargets (chars w' x) =
                  (if x = src \<or> x \<in> getAllies w src then inRangeTargets (chars w x) - {this}
                   else inRangeTargets (chars w x)) \<and>
                lockedOnTarget (chars w' x) =
                  (if x \<in> getAllies w src \<and> lockedOnTarget (chars w x) = Some this then None
                   else lockedOnTarget (chars w x)))))"
  using receiveDamage_dead_source [of w src K this damage]
    receiveDamage_invincible [of w src this K damage]
    receiveDamage_survive [of w src this damage K]
    receiveDamage_kill [of w src this damage f fx K]
  by blast

lemmas world_defs = combatWorld_def exampleWorld_def attacker_def attackerParty_def
  exampleCharacter_def exampleProfile_def exampleBody_def exampleFixture_def exampleConstants_def
  deadSourceWorld_def invincibleWorld_def partyWorld_def trioParty_def

lemmas combat_defs = receiveDamage_def onZeroHealth_def int32_id isInt32_def getHealth_def
  setHealth_def updChar_def forEachChar_def getAllies_def eraseInRangeTarget_def
  clearLockOnAt_def setCategoryBits_def runAfter_def notify_def getSfxFileName_def Let_def

theorem receiveDamage_effects_witness:
  "receiveDamage exampleConstants deadSourceWorld 1 (Some 2) 15 = Inr (False, deadSourceWorld) \<and>
   receiveDamage exampleConstants invincibleWorld 1 (Some 2) 15 = Inr (True, invincibleWorld) \<and>
   damageOutcome (Inr (True, combatWorld)) = Inr (True, 10, False, True) \<and>
   damageOutcome (receiveDamage exampleConstants combatWorld 1 (Some 2) 3) =
     Inr (True, 7, False, True) \<and>
   damageOutcome (receiveDamage exampleConstants combatWorld 1 (Some 2) 15) =
     Inr (True, 0, True, False)"
proof -
  have a: "isSetToKill (chars deadSourceWorld 2)"
    by (simp add: world_defs updChar_def)
  have b: "\<not> isSetToKill (chars invincibleWorld 2)" "\<not> isKilled (chars invincibleWorld 2)"
    "isInvincible (chars invincibleWorld 1)"
    by (simp_all add: world_defs updChar_def)
  have c: "\<not> isSetToKill (chars combatWorld 2)" "\<not> isKilled (chars combatWorld 2)"
    "\<not> isInvincible (chars combatWorld 1)" "getHealth combatWorld 1 = 10"
    "fixtures (chars combatWorld 1) BODY = Some 0"
    "map_of (fixtureList (body (chars combatWorld 1))) 0 = Some (exampleFixture 1 6)"
    by (simp_all add: world_defs getHealth_def)
  have d: "isInt32 (getHealth combatWorld 1 - 3)" "0 < getHealth combatWorld 1 - 3"
    "isInt32 (getHealth combatWorld 1 - 15)" "getHealth combatWorld 1 - 15 \<le> 0"
    using c(4) by (simp_all add: isInt32_def)
  from receiveDamage_effects [of deadSourceWorld 2 exampleConstants 1 15] a
  have 1: "receiveDamage exampleConstants deadSourceWorld 1 (Some 2) 15 = Inr (False, deadSourceWorld)"
    by blast
  from receiveDamage_effects [of invincibleWorld 2 exampleConstants 1 15] b
  have 2: "receiveDamage exampleConstants invincibleWorld 1 (Some 2) 15 = Inr (True, invincibleWorld)"
    by blast
  from receiveDamage_effects [of combatWorld 2 exampleConstants 1 3] c d
  obtain w3 where 3: "receiveDamage exampleConstants combatWorld 1 (Some 2) 3 = Inr (True, w3)"
    "getHealth w3 1 = getHealth combatWorld 1 - 3"
    "isSetToKill (chars w3 1) = isSetToKill (chars combatWorld 1)"
    "\<forall>x. inRangeTargets (chars w3 x) = inRangeTargets (chars combatWorld x) \<and>
                lockedOnTarget (chars w3 x) = lockedOnTarget (chars combatWorld x) \<and>
                body (chars w3 x) = body (chars combatWorld x)"
    by blast
  from receiveDamage_effects [of combatWorld 2 exampleConstants 1 15 0 "exampleFixture 1 6"] c d
  obtain w4 where 4: "receiveDamage exampleConstants combatWorld 1 (Some 2) 15 = Inr (True, w4)"
    "getHealth w4 1 = 0" "isSetToKill (chars w4 1)"
    "\<forall>x. inRangeTargets (chars w4 x) =
                  (if x = 2 \<or> x \<in> getAllies combatWorld 2 then inRangeTargets (chars combatWorld x) - {1}
                   else inRangeTargets (chars combatWorld x)) \<and>
                lockedOnTarget (chars w4 x) =
                  (if x \<in> getAllies combatWorld 2 \<and> lockedOnTarget (chars combatWorld x) = Some 1 then None
                   else lockedOnTarget (chars combatWorld x))"
    by blast
  have al: "getAllies combatWorld 2 = {3}"
    by (simp add: getAllies_def world_defs)
  have 5: "damageOutcome (Inr (True, combatWorld)) = Inr (True, 10, False, True)"
    by (simp add: damageOutcome_def getHealth_def world_defs)
  have 6: "damageOutcome (receiveDamage exampleConstants combatWorld 1 (Some 2) 3) =
     Inr (True, 7, False, True)"
    using 3 c by (simp add: damageOutcome_def world_defs)
  have 7: "damageOutcome (receiveDamage exampleConstants combatWorld 1 (Some 2) 15) =
     Inr (True, 0, True, False)"
    using 4 al by (simp add: damageOutcome_def world_defs)
  show ?thesis using 1 2 5 6 7 by simp
qed

text \<open>
  C3 as stated fails in its example: the receiver is not removed from the in-range set of
  every character that tracks it. Character 1 (health 10 of 50) takes 15 damage from
  character 2: its health is 0, it is set to kill, and it has left the in-range sets of
  character 2 and of its ally 3; but character 5, which is in no party, still has
  character 1 in range and is still locked onto it.
\<close>

theorem receiveDamage_trackers_counterexample:
  "getAllies trackerWorld 2 = {3} \<and>
   1 \<in> inRangeTargets (chars trackerWorld 5) \<and>
   trackerOutcome (receiveDamage exampleConstants trackerWorld 1 (Some 2) 15) =
     Inr (0, True, False, True, Some 1)"
  by (simp add: trackerOutcome_def trackerWorld_def combat_defs world_defs)

section \<open>Inflicting damage\<close>

lemma receiveDamage_party:
  "receiveDamage K w this source d = Inr rw \<Longrightarrow> party (chars (snd rw) x) = party (chars w x)"
  by (auto simp: receiveDamage_def onZeroHealth_def getHealth_def setHealth_def
      updChar_def forEachChar_def eraseInRangeTarget_def clearLockOnAt_def
      runAfter_def notify_def Let_def split: option.splits if_splits sum.splits)

lemma receiveDamage_total:
  "bodyFixtureAttached (chars w this) \<Longrightarrow> \<exists>rw. receiveDamage K w this source d = Inr rw"
  by (auto simp: receiveDamage_def onZeroHealth_def getHealth_def setHealth_def
      updChar_def forEachChar_def eraseInRangeTarget_def clearLockOnAt_def
      setCategoryBits_def bodyFixtureAttached_def
      runAfter_def notify_def Let_def split: option.splits if_splits sum.splits)

text \<open>
  Where the lock-ons stand after \<open>inflictDamage\<close>: the allies of the target are locked onto
  the attacker; the allies of the attacker that are not allies of the target as well are
  locked onto the target; the target is locked onto the attacker unless it is an ally of
  the attacker.
\<close>

lemma inflictDamage_lockOn_general:
  assumes "bodyFixtureAttached (chars w B)"
  shows "\<exists>w'. inflictDamage K w A (Some B) d = Inr (True, w') \<and>
           (\<forall>x. x \<in> getAllies w B \<longrightarrow> lockedOnTarget (chars w' x) = Some A) \<and>
           (\<forall>x. x \<in> getAllies w A \<and> x \<notin> getAllies w B \<longrightarrow>
                lockedOnTarget (chars w' x) = Some B) \<and>
           (B \<notin> getAllies w A \<longrightarrow> lockedOnTarget (chars w' B) = Some A)"
proof -
  from receiveDamage_total [OF assms] obtain rw where
    rw: "receiveDamage K w B (Some A) d = Inr rw" by blast
  have p: "\<And>x. party (chars (snd rw) x) = party (chars w x)"
    using receiveDamage_party [OF rw] by simp
  show ?thesis
    using rw p
    by (auto simp: inflictDamage_def getAllies_def updChar_def forEachChar_def lockOn_def Let_def
        split: option.splits)
qed

text \<open>
  C4, as the code has it. When no character is an ally of both the attacker \<open>A\<close> and the
  target \<open>B\<close>, and \<open>B\<close> is not an ally of \<open>A\<close> (the two are on different sides), and the
  BODY fixture of \<open>B\<close> is attached (so that a killing blow does not fail),
  \<open>inflictDamage(A, B)\<close> returns true and afterwards every ally of \<open>A\<close> is locked onto \<open>B\<close>,
  every ally of \<open>B\<close> is locked onto \<open>A\<close>, and \<open>B\<close> is locked onto \<open>A\<close>.
\<close>

theorem inflictDamage_lockOn:
  assumes "bodyFixtureAttached (chars w B)"
    and "getAllies w A \<inter> getAllies w B = {}"
    and "B \<notin> getAllies w A"
  shows "\<exists>w'. inflictDamage K w A (Some B) d = Inr (True, w') \<and>
           (\<forall>x \<in> getAllies w A. lockedOnTarget (chars w' x) = Some B) \<and>
           (\<forall>x \<in> getAllies w B. lockedOnTarget (chars w' x) = Some A) \<and>
           lockedOnTarget (chars w' B) = Some A"
  using inflictDamage_lockOn_general [OF assms(1), of K A d] assms(2,3) by blast

theorem inflictDamage_lockOn_witness:
  "bodyFixtureAttached (chars combatWorld 1) \<and>
   getAllies combatWorld 2 = {3} \<and> getAllies combatWorld 1 = {} \<and>
   lockOnOutcome [3, 1] (inflictDamage exampleConstants combatWorld 2 (Some 1) 15) =
     Inr [Some 1, Some 2]"
proof -
  have h: "bodyFixtureAttached (chars combatWorld 1)"
    "getAllies combatWorld 2 \<inter> getAllies combatWorld 1 = {}"
    "1 \<notin> getAllies combatWorld 2"
    by (simp_all add: bodyFixtureAttached_def getAllies_def world_defs)
  have al: "getAllies combatWorld 2 = {3}" "getAllies combatWorld 1 = {}"
    by (simp_all add: getAllies_def world_defs)
  from inflictDamage_lockOn [OF h, of exampleConstants 15] obtain w' where
    "inflictDamage exampleConstants combatWorld 2 (Some 1) 15 = Inr (True, w')"
    "\<forall>x \<in> getAllies combatWorld 2. lockedOnTarget (chars w' x) = Some 1"
    "lockedOnTarget (chars w' 1) = Some 2"
    by blast
  then show ?thesis using h(1) al by (simp add: lockOnOutcome_def)
qed

text \<open>
  C4 as stated fails when attacker and target share a party: character 2 leads characters
  3 and 4; after character 2 has inflicted damage on character 3, character 4, an ally of
  the attacker, is locked onto the attacker and not onto the target.
\<close>

theorem inflictDamage_lockOn_counterexample:
  "4 \<in> getAllies partyWorld 2 \<and>
   lockOnOutcome [4] (inflictDamage exampleConstants partyWorld 2 (Some 3) 3) = Inr [Some 2]"
  by (simp add: lockOnOutcome_def inflictDamage_def lockOn_def combat_defs world_defs)

section \<open>Health stays within its range\<close>

lemma removeItem_frame:
  "removeItem w this item amt = Inr w' \<Longrightarrow>
   characterProfile (chars w' x) = characterProfile (chars w x) \<and>
   isSetToKill (chars w' x) = isSetToKill (chars w x) \<and>
   kind (items w' r) = kind (items w r)"
  by (auto simp: removeItem_def getExistingItemObj_def setAmount_def updChar_def
      inventoryErase_def Let_def split: option.splits if_splits ItemKind.splits)

lemma receiveDamage_health:
  assumes "receiveDamage K w this (Some src) d = Inr rw"
    and "0 \<le> d" "isInt32 d" "healthInRange w this"
    and "isInt32 (fullHealth (characterProfile (chars w this)))"
  shows "healthInRange (snd rw) this \<and>
         fullHealth (characterProfile (chars (snd rw) this)) =
           fullHealth (characterProfile (chars w this)) \<and>
         items (snd rw) = items w \<and>
         (isSetToKill (chars w this) \<longrightarrow> isSetToKill (chars (snd rw) this)) \<and>
         getHealth (snd rw) this \<le> getHealth w this"
proof -
  have "isInt32 (health (characterProfile (chars w this)) - d)"
    using assms(2-5) by (simp add: isInt32_def healthInRange_def getHealth_def)
  then have i: "int32 (health (characterProfile (chars w this)) - d) =
      health (characterProfile (chars w this)) - d"
    by (rule int32_id)
  show ?thesis
    using assms(1,2,4) i
    by (auto simp: receiveDamage_def onZeroHealth_def getHealth_def setHealth_def
        healthInRange_def updChar_def forEachChar_def eraseInRangeTarget_def clearLockOnAt_def
        runAfter_def notify_def Let_def split: if_splits sum.splits)
qed

lemma regenHealth_health:
  assumes "0 \<le> dh" "isInt32 (fullHealth (characterProfile (chars w this)) + dh)"
    and "healthInRange w this"
  shows "healthInRange (updChar this (regenHealth dh) w) this \<and>
         fullHealth (characterProfile (chars (updChar this (regenHealth dh) w) this)) =
           fullHealth (characterProfile (chars w this)) \<and>
         items (updChar this (regenHealth dh) w) = items w \<and>
         isSetToKill (chars (updChar this (regenHealth dh) w) this) = isSetToKill (chars w this)"
proof -
  have "isInt32 (health (characterProfile (chars w this)) + dh)"
    using assms by (simp add: isInt32_def healthInRange_def getHealth_def)
  then have i: "int32 (health (characterProfile (chars w this)) + dh) =
      health (characterProfile (chars w this)) + dh"
    by (rule int32_id)
  show ?thesis
    using assms(1,3) i
    by (simp add: regenHealth_def getHealth_def setHealth_def healthInRange_def updChar_def Let_def)
qed

lemma restoreStats_health:
  assumes "0 \<le> restoreHealth cp" "isInt32 (fullHealth p + restoreHealth cp)"
    and "0 \<le> health p" "health p \<le> fullHealth p"
  shows "0 \<le> health (restoreStats cp p) \<and> health (restoreStats cp p) \<le> fullHealth p \<and>
         fullHealth (restoreStats cp p) = fullHealth p"
proof -
  have "isInt32 (health p + restoreHealth cp)"
    using assms by (simp add: isInt32_def)
  then have i: "int32 (health p + restoreHealth cp) = health p + restoreHealth cp"
    by (rule int32_id)
  show ?thesis
    using assms(1,3,4) i by (simp add: restoreStats_def Let_def)
qed

lemma useItem_health:
  assumes "useItem w this r = Inr w'"
    and "amountOk w this (UseConsumable r)" "healthInRange w this"
  shows "healthInRange w' this \<and>
         fullHealth (characterProfile (chars w' this)) =
           fullHealth (characterProfile (chars w this)) \<and>
         (\<forall>r'. kind (items w' r') = kind (items w r')) \<and>
         isSetToKill (chars w' this) = isSetToKill (chars w this)"
proof (cases "kind (items w r)")
  case (ConsumableObj cp)
  let ?w1 = "updChar this (\<lambda>c. c\<lparr>characterProfile := restoreStats cp (characterProfile c)\<rparr>) w"
  from assms(1) ConsumableObj obtain w2 where
    w2: "removeItem ?w1 this (Some r) 1 = Inr w2" and w': "w' = notify [HudUpdateStatusBars] w2"
    by (auto simp: useItem_def Let_def split: sum.splits)
  have a: "0 \<le> restoreHealth cp"
    "isInt32 (fullHealth (characterProfile (chars w this)) + restoreHealth cp)"
    using assms(2) ConsumableObj by simp_all
  have b: "0 \<le> health (characterProfile (chars w this))"
    "health (characterProfile (chars w this)) \<le> fullHealth (characterProfile (chars w this))"
    using assms(3) by (simp_all add: healthInRange_def getHealth_def)
  note rs = restoreStats_health [OF a b]
  have f: "\<And>x r'. characterProfile (chars w2 x) = characterProfile (chars ?w1 x) \<and>
            isSetToKill (chars w2 x) = isSetToKill (chars ?w1 x) \<and>
            kind (items w2 r') = kind (items ?w1 r')"
    using removeItem_frame [OF w2] by blast
  show ?thesis
    using rs f w'
    by (simp add: healthInRange_def getHealth_def notify_def updChar_def)
next
  case ItemObj
  with assms(1) show ?thesis by (simp add: useItem_def)
next
  case (EquipmentObj ty)
  with assms(1) show ?thesis by (simp add: useItem_def)
qed

lemma amountOk_cong:
  assumes "\<forall>r. kind (items w' r) = kind (items w r)"
    and "fullHealth (characterProfile (chars w' this)) = fullHealth (characterProfile (chars w this))"
  shows "amountOk w' this hop = amountOk w this hop"
  using assms by (cases hop) (simp_all split: ItemKind.splits)

lemma applyHealthOp_health:
  assumes "applyHealthOp K this hop w = Inr w'"
    and "amountOk w this hop" "healthInRange w this"
    and "isInt32 (fullHealth (characterProfile (chars w this)))"
  shows "healthInRange w' this \<and>
         fullHealth (characterProfile (chars w' this)) =
           fullHealth (characterProfile (chars w this)) \<and>
         (\<forall>r. kind (items w' r) = kind (items w r)) \<and>
         (isSetToKill (chars w this) \<longrightarrow> isSetToKill (chars w' this)) \<and>
         (isDamage hop \<longrightarrow> getHealth w' this \<le> getHealth w this)"
proof (cases hop)
  case (DamageFrom src d)
  with assms(1) obtain rw where rw: "receiveDamage K w this (Some src) d = Inr rw" "w' = snd rw"
    by (cases "receiveDamage K w this (Some src) d") auto
  from receiveDamage_health [OF rw(1) _ _ assms(3,4)] assms(2) DamageFrom rw(2)
  show ?thesis by simp
next
  case (Regen dh)
  with assms(1) have w': "w' = updChar this (regenHealth dh) w" by simp
  from regenHealth_health [OF _ _ assms(3), of dh] assms(2) Regen w'
  show ?thesis by simp
next
  case (UseConsumable r)
  with assms(1) have u: "useItem w this r = Inr w'" by simp
  from useItem_health [OF u _ assms(3)] assms(2) UseConsumable
  show ?thesis by simp
qed

text \<open>
  C1, as the code has it. Let health start within \<open>[0, fullHealth]\<close>, with \<open>fullHealth\<close>
  within the range of \<open>int\<close>, and let every damage, every regeneration delta and the
  \<open>restoreHealth\<close> of every consumable used be non-negative (and small enough for
  \<open>fullHealth\<close> plus the amount to stay within the range of \<open>int\<close>). Then after any run of
  \<open>receiveDamage\<close>, \<open>regenHealth\<close> and \<open>useItem\<close> on the character that does not fail,
  health is within \<open>[0, fullHealth]\<close> again, \<open>fullHealth\<close> is what it was, a set-to-kill flag
  that was set is still set, and if the run consists of damage only, health has not grown
  (so that health zero stays zero under damage).
\<close>

theorem health_stays_in_range:
  assumes "runHealthOps K this hops w = Inr w'"
    and "\<forall>hop \<in> set hops. amountOk w this hop" "healthInRange w this"
    and "isInt32 (fullHealth (characterProfile (chars w this)))"
  shows "healthInRange w' this \<and>
         fullHealth (characterProfile (chars w' this)) =
           fullHealth (characterProfile (chars w this)) \<and>
         (isSetToKill (chars w this) \<longrightarrow> isSetToKill (chars w' this)) \<and>
         ((\<forall>hop \<in> set hops. isDamage hop) \<longrightarrow> getHealth w' this \<le> getHealth w this)"
  using assms
proof (induction hops arbitrary: w)
  case Nil
  then show ?case by simp
next
  case (Cons hop hops)
  from Cons.prems(1) obtain w1 where
    w1: "applyHealthOp K this hop w = Inr w1" and run: "runHealthOps K this hops w1 = Inr w'"
    by (auto split: sum.splits)
  have ok: "amountOk w this hop" using Cons.prems(2) by simp
  note st = applyHealthOp_health [OF w1 ok Cons.prems(3,4)]
  have ok1: "\<forall>h \<in> set hops. amountOk w1 this h"
    using Cons.prems(2) st amountOk_cong [of w1 w this] by simp
  have r1: "healthInRange w1 this" using st by simp
  have f1: "isInt32 (fullHealth (characterProfile (chars w1 this)))"
    using st Cons.prems(4) by simp
  note ih = Cons.IH [OF run ok1 r1 f1]
  show ?case using ih st by auto
qed

lemma restoreStats_health_eq:
  "health (restoreStats cp p) =
     (if int32 (health p + restoreHealth cp) > fullHealth p then fullHealth p
      else int32 (health p + restoreHealth cp))"
  by (simp add: restoreStats_def Let_def)

lemmas item_defs = addItem_def removeItem_def useItem_def getExistingItemObj_def setAmount_def
  inventoryInsert_def inventoryErase_def restoreStats_health_eq regenHealth_def potionWorld_def
  exampleItems_def potionProfile_def

theorem health_stays_in_range_witness:
  "list_all (amountOk potionWorld 1)
     [DamageFrom 2 3, Regen 5, UseConsumable 7, DamageFrom 2 15] \<and>
   healthInRange potionWorld 1 \<and>
   isInt32 (fullHealth (characterProfile (chars potionWorld 1))) \<and>
   healthOutcome
     (runHealthOps exampleConstants 1
        [DamageFrom 2 3, Regen 5, UseConsumable 7, DamageFrom 2 15] potionWorld) =
     Inr (17, False) \<and>
   17 \<le> fullHealth (characterProfile (chars potionWorld 1))"
proof -
  let ?hops = "[DamageFrom 2 3, Regen 5, UseConsumable 7, DamageFrom 2 15]"
  have h: "\<forall>hop \<in> set ?hops. amountOk potionWorld 1 hop" "healthInRange potionWorld 1"
    "isInt32 (fullHealth (characterProfile (chars potionWorld 1)))"
    by (simp_all add: healthInRange_def combat_defs world_defs item_defs)
  have f: "fullHealth (characterProfile (chars potionWorld 1)) = 50"
    by (simp add: combat_defs world_defs item_defs)
  have "\<exists>w'. runHealthOps exampleConstants 1 ?hops potionWorld = Inr w' \<and> getHealth w' 1 = 17 \<and>
          \<not> isSetToKill (chars w' 1)"
    by (simp add: combat_defs world_defs item_defs)
  then obtain w' where w': "runHealthOps exampleConstants 1 ?hops potionWorld = Inr w'"
    "getHealth w' 1 = 17" "\<not> isSetToKill (chars w' 1)"
    by blast
  from health_stays_in_range [OF w'(1) h] have "healthInRange w' 1" by simp
  then show ?thesis
    using h w' f by (simp add: healthOutcome_def healthInRange_def list_all_iff)
qed

text \<open>
  C1 as stated fails. Character 1 (health 10 of 50) takes 15 damage: health is 0 and the
  set-to-kill flag is set. Using a potion then raises health to 20, and regenerating 5 raises
  it to 5, with the flag still set. And a negative damage of -100 takes health to 110, above
  the full health of 50.
\<close>

theorem health_irreversible_counterexample:
  "healthOutcome (runHealthOps exampleConstants 1 [DamageFrom 2 15] potionWorld) =
     Inr (0, True) \<and>
   healthOutcome
     (runHealthOps exampleConstants 1 [DamageFrom 2 15, UseConsumable 7] potionWorld) =
     Inr (20, True) \<and>
   healthOutcome (runHealthOps exampleConstants 1 [DamageFrom 2 15, Regen 5] potionWorld) =
     Inr (5, True) \<and>
   healthOutcome (runHealthOps exampleConstants 1 [DamageFrom 2 (- 100)] potionWorld) =
     Inr (110, False) \<and>
   fullHealth (characterProfile (chars potionWorld 1)) = 50"
  by (simp add: healthOutcome_def combat_defs world_defs item_defs)

section \<open>The item store\<close>

lemma addItem_profile:
  "jsonFileName (items (addItem w this item a) x) = jsonFileName (items w x) \<and>
   itemType (items (addItem w this item a) x) = itemType (items w x)"
  by (simp add: addItem_def getExistingItemObj_def setAmount_def updChar_def Let_def
      split: option.splits)

lemma removeItem_profile:
  "removeItem w this item a = Inr w' \<Longrightarrow>
   jsonFileName (items w' x) = jsonFileName (items w x) \<and>
   itemType (items w' x) = itemType (items w x)"
  by (auto simp: removeItem_def getExistingItemObj_def setAmount_def updChar_def Let_def
      split: option.splits if_splits)

text \<open>The store of one character after the steps of addItem and removeItem.\<close>

lemma addItem_new:
  assumes "itemMapper (chars w this) (jsonFileName (items w r)) = None" "a \<noteq> 0"
  shows "itemMapper (chars (addItem w this (Some r) a) this) =
           (itemMapper (chars w this))(jsonFileName (items w r) \<mapsto> r)"
    and "inventory (chars (addItem w this (Some r) a) this) =
           (inventory (chars w this))
             (itemType (items w r) := insert r (inventory (chars w this) (itemType (items w r))))"
    and "items (addItem w this (Some r) a) = (items w)(r := (items w r)\<lparr>amount := a\<rparr>)"
  using assms
  by (simp_all add: addItem_def getExistingItemObj_def setAmount_def updChar_def
      inventoryInsert_def Let_def)

lemma addItem_existing:
  assumes "itemMapper (chars w this) (jsonFileName (items w r)) = Some e" "a \<noteq> 0"
  shows "itemMapper (chars (addItem w this (Some r) a) this) = itemMapper (chars w this)"
    and "inventory (chars (addItem w this (Some r) a) this) =
           (inventory (chars w this))
             (itemType (items w e) := insert e (inventory (chars w this) (itemType (items w e))))"
    and "items (addItem w this (Some r) a) =
           (items w)(e := (items w e)\<lparr>amount := int32 (amount (items w e) + a)\<rparr>)"
  using assms
  by (simp_all add: addItem_def getExistingItemObj_def setAmount_def updChar_def
      inventoryInsert_def Let_def)



lemma itemInv_SomeI:
  assumes "0 \<le> q" "isInt32 q" "itemMapper (chars w this) j = Some e"
    and "jsonFileName (items w e) = j" "itemType (items w e) = t" "amount (items w e) = q"
    and "\<And>ty x. x \<in> inventory (chars w this) ty \<Longrightarrow> jsonFileName (items w x) = j \<Longrightarrow>
           x = e \<and> ty = t"
    and "0 < q \<Longrightarrow> e \<in> inventory (chars w this) t"
  shows "itemInv w this j t q"
  using assms unfolding itemInv_def by simp

lemma itemInv_NoneI:
  assumes "q = 0" "itemMapper (chars w this) j = None"
    and "\<And>ty x. x \<in> inventory (chars w this) ty \<Longrightarrow> jsonFileName (items w x) \<noteq> j"
  shows "itemInv w this j t q"
  using assms unfolding itemInv_def by (simp add: isInt32_def)

lemma itemInv_SomeD:
  assumes "itemInv w this j t q" "itemMapper (chars w this) j = Some e"
  shows "0 \<le> q" "isInt32 q" "jsonFileName (items w e) = j" "itemType (items w e) = t"
    "amount (items w e) = q"
    "\<And>ty x. x \<in> inventory (chars w this) ty \<Longrightarrow> jsonFileName (items w x) = j \<Longrightarrow>
       x = e \<and> ty = t"
    "0 < q \<Longrightarrow> e \<in> inventory (chars w this) t"
  using assms unfolding itemInv_def by simp_all

lemma itemInv_NoneD:
  assumes "itemInv w this j t q" "itemMapper (chars w this) j = None"
  shows "q = 0"
    "\<And>ty x. x \<in> inventory (chars w this) ty \<Longrightarrow> jsonFileName (items w x) \<noteq> j"
  using assms unfolding itemInv_def by simp_all


lemma addItem_inv:
  assumes inv: "itemInv w this j t q" and a: "0 \<le> a" "isInt32 (q + a)"
    and r: "jsonFileName (items w r) = j" "itemType (items w r) = t"
  shows "itemInv (addItem w this (Some r) a) this j t (q + a)"
proof (cases "a = 0")
  case True
  with inv show ?thesis by (simp add: addItem_def)
next
  case False
  let ?w = "addItem w this (Some r) a"
  have js: "\<And>x. jsonFileName (items ?w x) = jsonFileName (items w x)"
    and ty: "\<And>x. itemType (items ?w x) = itemType (items w x)"
    using addItem_profile [of w this "Some r" a] by simp_all
  show ?thesis
  proof (cases "itemMapper (chars w this) j")
    case None
    then have n: "itemMapper (chars w this) (jsonFileName (items w r)) = None"
      using r by simp
    note post = addItem_new [OF n False]
    note d = itemInv_NoneD [OF inv None]
    show ?thesis
    proof (rule itemInv_SomeI [where e = r])
      show "0 \<le> q + a" using d(1) a(1) by simp
      show "isInt32 (q + a)" by (rule a(2))
      show "itemMapper (chars ?w this) j = Some r" using r(1) by (simp add: post(1))
      show "jsonFileName (items ?w r) = j" using r(1) by (simp add: js)
      show "itemType (items ?w r) = t" using r(2) by (simp add: ty)
      show "amount (items ?w r) = q + a" using d(1) by (simp add: post(3))
      show "r \<in> inventory (chars ?w this) t" using r(2) by (simp add: post(2))
    next
      fix ty' x
      assume x: "x \<in> inventory (chars ?w this) ty'" and jx: "jsonFileName (items ?w x) = j"
      have jx': "jsonFileName (items w x) = j" using jx by (simp add: js)
      have "x \<notin> inventory (chars w this) ty'" using d(2) [of x ty'] jx' by blast
      with x show "x = r \<and> ty' = t"
        using r(2) by (simp add: post(2) split: if_splits)
    qed
  next
    case (Some e)
    then have n: "itemMapper (chars w this) (jsonFileName (items w r)) = Some e"
      using r by simp
    note post = addItem_existing [OF n False]
    note d = itemInv_SomeD [OF inv Some]
    have i: "int32 (amount (items w e) + a) = q + a"
      using d(5) a(2) by (simp add: int32_id)
    show ?thesis
    proof (rule itemInv_SomeI [where e = e])
      show "0 \<le> q + a" using d(1) a(1) by simp
      show "isInt32 (q + a)" by (rule a(2))
      show "itemMapper (chars ?w this) j = Some e" using Some by (simp add: post(1))
      show "jsonFileName (items ?w e) = j" using d(3) by (simp add: js)
      show "itemType (items ?w e) = t" using d(4) by (simp add: ty)
      show "amount (items ?w e) = q + a" using i by (simp add: post(3))
      show "e \<in> inventory (chars ?w this) t" using d(4) by (simp add: post(2))
    next
      fix ty' x
      assume x: "x \<in> inventory (chars ?w this) ty'" and jx: "jsonFileName (items ?w x) = j"
      have jx': "jsonFileName (items w x) = j" using jx by (simp add: js)
      show "x = e \<and> ty' = t"
      proof (cases "x \<in> inventory (chars w this) ty'")
        case True
        then show ?thesis using d(6) [of x ty'] jx' by blast
      next
        case False
        with x show ?thesis using d(4) by (simp add: post(2) split: if_splits)
      qed
    qed
  qed
qed


lemma removeItem_existing:
  assumes "itemMapper (chars w this) (jsonFileName (items w r)) = Some e" "a \<noteq> 0"
    and "0 \<le> int32 (amount (items w e) - a)"
  shows "\<exists>w'. removeItem w this (Some r) a = Inr w' \<and>
           items w' = (items w)(e := (items w e)\<lparr>amount := int32 (amount (items w e) - a)\<rparr>) \<and>
           inventory (chars w' this) =
             (if int32 (amount (items w e) - a) = 0
              then (inventory (chars w this))
                     (itemType (items w r) := inventory (chars w this) (itemType (items w r)) - {e})
              else inventory (chars w this)) \<and>
           (itemMapper (chars w' this) = itemMapper (chars w this) \<or>
            int32 (amount (items w e) - a) = 0 \<and>
            itemMapper (chars w' this) =
              (itemMapper (chars w this))(jsonFileName (items w r) := None))"
  using assms
  by (simp add: removeItem_def getExistingItemObj_def setAmount_def updChar_def
      inventoryErase_def Let_def)

lemma removeItem_inv:
  assumes inv: "itemInv w this j t q" and a: "0 \<le> a" "a \<le> q"
    and r: "jsonFileName (items w r) = j" "itemType (items w r) = t"
  shows "\<exists>w'. removeItem w this (Some r) a = Inr w' \<and> itemInv w' this j t (q - a)"
proof (cases "a = 0")
  case True
  with inv show ?thesis
    by (simp add: removeItem_def split: option.splits)
next
  case False
  show ?thesis
  proof (cases "itemMapper (chars w this) j")
    case None
    from itemInv_NoneD(1) [OF inv None] a False show ?thesis by simp
  next
    case (Some e)
    then have n: "itemMapper (chars w this) (jsonFileName (items w r)) = Some e"
      using r by simp
    note d = itemInv_SomeD [OF inv Some]
    have "isInt32 (q - a)" using d(1,2) a by (simp add: isInt32_def)
    then have i: "int32 (amount (items w e) - a) = q - a"
      using d(5) by (simp add: int32_id)
    have "0 \<le> int32 (amount (items w e) - a)" using i a by simp
    from removeItem_existing [OF n False this] obtain w' where
      w': "removeItem w this (Some r) a = Inr w'"
      and its: "items w' = (items w)(e := (items w e)\<lparr>amount := q - a\<rparr>)"
      and invt: "inventory (chars w' this) =
             (if q - a = 0
              then (inventory (chars w this))(t := inventory (chars w this) t - {e})
              else inventory (chars w this))"
      and mp: "itemMapper (chars w' this) = itemMapper (chars w this) \<or>
               q - a = 0 \<and> itemMapper (chars w' this) = (itemMapper (chars w this))(j := None)"
      unfolding i r by blast
    have js: "\<And>x. jsonFileName (items w' x) = jsonFileName (items w x)"
      and ty: "\<And>x. itemType (items w' x) = itemType (items w x)"
      using removeItem_profile [OF w'] by simp_all
    have sub: "\<And>ty' x. x \<in> inventory (chars w' this) ty' \<Longrightarrow> x \<in> inventory (chars w this) ty'"
      by (simp add: invt split: if_splits)
    have "itemInv w' this j t (q - a)"
    proof (cases "itemMapper (chars w' this) j")
      case None
      with mp Some have z: "q - a = 0" by auto
      show ?thesis
      proof (rule itemInv_NoneI [OF z None])
        fix ty' x assume x: "x \<in> inventory (chars w' this) ty'"
        show "jsonFileName (items w' x) \<noteq> j"
        proof
          assume "jsonFileName (items w' x) = j"
          then have jx: "jsonFileName (items w x) = j" by (simp add: js)
          have "x = e \<and> ty' = t" using d(6) [OF sub [OF x] jx] .
          with x z show False by (simp add: invt)
        qed
      qed
    next
      case (Some e')
      with mp \<open>itemMapper (chars w this) j = Some e\<close> have e': "e' = e"
        by (auto split: if_splits)
      show ?thesis
      proof (rule itemInv_SomeI [where e = e])
        show "0 \<le> q - a" using a by simp
        show "isInt32 (q - a)" by fact
        show "itemMapper (chars w' this) j = Some e" using Some e' by simp
        show "jsonFileName (items w' e) = j" using d(3) by (simp add: js)
        show "itemType (items w' e) = t" using d(4) by (simp add: ty)
        show "amount (items w' e) = q - a" by (simp add: its)
      next
        fix ty' x
        assume x: "x \<in> inventory (chars w' this) ty'" and jx: "jsonFileName (items w' x) = j"
        then show "x = e \<and> ty' = t" using d(6) [OF sub [OF x]] by (simp add: js)
      next
        assume "0 < q - a"
        then show "e \<in> inventory (chars w' this) t" using d(7) a by (simp add: invt)
      qed
    qed
    with w' show ?thesis by blast
  qed
qed


lemma netAmount_simps:
  "netAmount [] = 0"
  "netAmount (AddOp r a # iops) = a + netAmount iops"
  "netAmount (RemoveOp r a # iops) = netAmount iops - a"
  by (simp_all add: netAmount_def)

lemma runItemOps_inv:
  assumes "itemInv w this j t q" "withinOwned q iops"
    and "\<forall>iop \<in> set iops. jsonFileName (items w (opRef iop)) = j \<and>
                            itemType (items w (opRef iop)) = t"
  shows "\<exists>w'. runItemOps this iops w = Inr w' \<and> itemInv w' this j t (q + netAmount iops)"
  using assms
proof (induction iops arbitrary: w q)
  case Nil
  then show ?case by (simp add: netAmount_simps)
next
  case (Cons iop iops)
  show ?case
  proof (cases iop)
    case (AddOp r a)
    let ?w1 = "addItem w this (Some r) a"
    have a: "0 \<le> a" "isInt32 (q + a)" "withinOwned (q + a) iops"
      using Cons.prems(2) AddOp by simp_all
    have r: "jsonFileName (items w r) = j" "itemType (items w r) = t"
      using Cons.prems(3) AddOp by simp_all
    have i1: "itemInv ?w1 this j t (q + a)"
      by (rule addItem_inv [OF Cons.prems(1) a(1,2) r])
    have refs: "\<forall>iop \<in> set iops. jsonFileName (items ?w1 (opRef iop)) = j \<and>
                                   itemType (items ?w1 (opRef iop)) = t"
      using Cons.prems(3) by (simp add: addItem_profile)
    from Cons.IH [OF i1 a(3) refs] obtain w' where
      "runItemOps this iops ?w1 = Inr w'" "itemInv w' this j t (q + a + netAmount iops)"
      by blast
    then show ?thesis
      using AddOp by (simp add: netAmount_simps add.assoc)
  next
    case (RemoveOp r a)
    have a: "0 \<le> a" "a \<le> q" "withinOwned (q - a) iops"
      using Cons.prems(2) RemoveOp by simp_all
    have r: "jsonFileName (items w r) = j" "itemType (items w r) = t"
      using Cons.prems(3) RemoveOp by simp_all
    from removeItem_inv [OF Cons.prems(1) a(1,2) r] obtain w1 where
      w1: "removeItem w this (Some r) a = Inr w1" and i1: "itemInv w1 this j t (q - a)"
      by blast
    have refs: "\<forall>iop \<in> set iops. jsonFileName (items w1 (opRef iop)) = j \<and>
                                   itemType (items w1 (opRef iop)) = t"
      using Cons.prems(3) removeItem_profile [OF w1] by simp
    from Cons.IH [OF i1 a(3) refs] obtain w' where
      "runItemOps this iops w1 = Inr w'" "itemInv w' this j t (q - a + netAmount iops)"
      by blast
    then show ?thesis
      using RemoveOp w1 by (simp add: netAmount_simps algebra_simps)
  qed
qed

lemma itemInv_store:
  assumes "itemInv w this j t n"
  shows "getItemAmount w this j = n"
    and "\<exists>e. storeInstances w this j \<subseteq> {e}"
    and "0 < n \<Longrightarrow> \<exists>e. storeInstances w this j = {e} \<and> amount (items w e) = n \<and>
                         e \<in> inventory (chars w this) t"
proof -
  show "getItemAmount w this j = n"
    using assms by (simp add: itemInv_def getItemAmount_def split: option.splits)
  show "\<exists>e. storeInstances w this j \<subseteq> {e}"
  proof (cases "itemMapper (chars w this) j")
    case None
    from itemInv_NoneD(2) [OF assms None] None have "storeInstances w this j = {}"
      by (auto simp: storeInstances_def)
    then show ?thesis by simp
  next
    case (Some e)
    from itemInv_SomeD(6) [OF assms Some] Some have "storeInstances w this j \<subseteq> {e}"
      by (auto simp: storeInstances_def)
    then show ?thesis by blast
  qed
  show "\<exists>e. storeInstances w this j = {e} \<and> amount (items w e) = n \<and>
            e \<in> inventory (chars w this) t" if n: "0 < n"
  proof (cases "itemMapper (chars w this) j")
    case None
    from itemInv_NoneD(1) [OF assms None] n show ?thesis by simp
  next
    case (Some e)
    note d = itemInv_SomeD [OF assms Some]
    from d(6) Some have "storeInstances w this j = {e}"
      by (auto simp: storeInstances_def)
    with d(5) d(7) [OF n] show ?thesis by blast
  qed
qed

text \<open>
  C2. Start from a store that holds no instance of the identifier \<open>j\<close>, and run any sequence
  of \<open>addItem\<close> and \<open>removeItem\<close> calls on item objects of that identifier (and its item
  type), where every amount is a quantity (not negative), no removal exceeds the quantity
  owned at that point, and the quantity owned stays within the range of \<open>int\<close>. Then the
  run does not fail, the quantity the character holds of \<open>j\<close> is the sum of the added
  amounts minus the sum of the removed amounts, the store holds at most one instance of
  \<open>j\<close>, and while that quantity is positive it holds exactly one, in the inventory, with
  the quantity tracked on it.
\<close>

theorem item_store_dedup:
  assumes "itemMapper (chars w this) j = None"
    and "\<forall>ty. \<forall>r \<in> inventory (chars w this) ty. jsonFileName (items w r) \<noteq> j"
    and "\<forall>iop \<in> set iops. jsonFileName (items w (opRef iop)) = j \<and>
                            itemType (items w (opRef iop)) = t"
    and "withinOwned 0 iops"
  shows "\<exists>w'. runItemOps this iops w = Inr w' \<and>
           getItemAmount w' this j = netAmount iops \<and>
           (\<exists>e. storeInstances w' this j \<subseteq> {e}) \<and>
           (0 < netAmount iops \<longrightarrow>
              (\<exists>e. storeInstances w' this j = {e} \<and> amount (items w' e) = netAmount iops \<and>
                   e \<in> inventory (chars w' this) t))"
proof -
  have "itemInv w this j t 0"
    using assms(1,2) by (intro itemInv_NoneI) simp_all
  from runItemOps_inv [OF this assms(4,3)] obtain w' where
    w': "runItemOps this iops w = Inr w'" "itemInv w' this j t (netAmount iops)"
    by auto
  from w'(1) itemInv_store [OF w'(2)] show ?thesis by blast
qed

theorem item_store_dedup_witness:
  "itemMapper (chars exampleWorld 1) ''potion.json'' = None \<and>
   withinOwned 0 [AddOp 7 3, AddOp 8 2, RemoveOp 7 4] \<and>
   netAmount [AddOp 7 3, AddOp 8 2, RemoveOp 7 4] = 1 \<and>
   itemOutcome (runItemOps 1 [AddOp 7 3, AddOp 8 2, RemoveOp 7 4] exampleWorld) =
     Inr (1, Some 7, {7})"
proof -
  let ?iops = "[AddOp 7 3, AddOp 8 2, RemoveOp 7 4]"
  have h: "itemMapper (chars exampleWorld 1) ''potion.json'' = None"
    "\<forall>ty. \<forall>r \<in> inventory (chars exampleWorld 1) ty.
       jsonFileName (items exampleWorld r) \<noteq> ''potion.json''"
    "\<forall>iop \<in> set ?iops. jsonFileName (items exampleWorld (opRef iop)) = ''potion.json'' \<and>
                          itemType (items exampleWorld (opRef iop)) = 1"
    "withinOwned 0 ?iops"
    by (simp_all add: exampleWorld_def exampleCharacter_def exampleItems_def isInt32_def)
  have n: "netAmount ?iops = 1" by (simp add: netAmount_def)
  from item_store_dedup [OF h] obtain w' where
    w': "runItemOps 1 ?iops exampleWorld = Inr w'"
    "getItemAmount w' 1 ''potion.json'' = netAmount ?iops"
    by blast
  have "itemOutcome (runItemOps 1 ?iops exampleWorld) = Inr (1, Some 7, {7})"
    by (simp add: itemOutcome_def getItemAmount_def addItem_def removeItem_def
        getExistingItemObj_def setAmount_def inventoryInsert_def inventoryErase_def
        updChar_def int32_id isInt32_def Let_def
        exampleWorld_def exampleCharacter_def exampleItems_def)
  with h(1,4) n w' show ?thesis by simp
qed

section \<open>Equipment\<close>

lemma removeItem_equipped:
  assumes "itemMapper (chars w this) (jsonFileName (items w r)) = Some e" "a \<noteq> 0"
    and "0 \<le> int32 (amount (items w e) - a)"
    and "kind (items w e) = EquipmentObj ty" "equipmentSlots (chars w this) ty = Some e"
  shows "\<exists>w'. removeItem w this (Some r) a = Inr w' \<and>
           items w' = (items w)(e := (items w e)\<lparr>amount := int32 (amount (items w e) - a)\<rparr>) \<and>
           inventory (chars w' this) =
             (if int32 (amount (items w e) - a) = 0
              then (inventory (chars w this))
                     (itemType (items w r) := inventory (chars w this) (itemType (items w r)) - {e})
              else inventory (chars w this)) \<and>
           itemMapper (chars w' this) = itemMapper (chars w this) \<and>
           equipmentSlots (chars w' this) = equipmentSlots (chars w this) \<and>
           notifications w' = notifications w"
  using assms
  by (simp add: removeItem_def getExistingItemObj_def setAmount_def updChar_def
      inventoryErase_def Let_def)

lemma unequip_occupied:
  assumes "equipmentSlots (chars w this) ty = Some d"
    and "itemMapper (chars w this) (jsonFileName (items w d)) = Some d"
  shows "items (unequip w this ty audio) =
           (items w)(d := (items w d)\<lparr>amount := int32 (amount (items w d) + 1)\<rparr>)"
    and "inventory (chars (unequip w this ty audio) this) =
           (inventory (chars w this))
             (itemType (items w d) := insert d (inventory (chars w this) (itemType (items w d))))"
    and "itemMapper (chars (unequip w this ty audio) this) = itemMapper (chars w this)"
    and "equipmentSlots (chars (unequip w this ty audio) this) =
           (equipmentSlots (chars w this))(ty := None)"
  using assms
  by (simp_all add: unequip_def addItem_def getExistingItemObj_def setAmount_def updChar_def
      inventoryInsert_def notify_def Let_def)


text \<open>
  C7, as the code has it. Let \<open>e\<close> be an equipment whose slot is occupied by another
  equipment \<open>d\<close> (of another identifier), both being the instances the owning map holds,
  with at least one \<open>e\<close> owned (amounts within the range of \<open>int\<close>). Then \<open>equip(e)\<close>
  succeeds; \<open>d\<close> is back in the inventory with its quantity incremented by 1; \<open>e\<close> is in the
  slot and its quantity is decremented by 1; and \<open>e\<close> is in the inventory afterwards exactly
  when it was there with a quantity other than 1. So an \<open>e\<close> owned once leaves the inventory,
  and an \<open>e\<close> owned several times is in the slot and in the inventory at once.
\<close>

theorem equip_replaces_occupant:
  assumes k: "kind (items w e) = EquipmentObj ty"
    and slot: "equipmentSlots (chars w this) ty = Some d"
    and diff: "jsonFileName (items w d) \<noteq> jsonFileName (items w e)"
    and md: "itemMapper (chars w this) (jsonFileName (items w d)) = Some d"
    and me: "itemMapper (chars w this) (jsonFileName (items w e)) = Some e"
    and ae: "1 \<le> amount (items w e)" "isInt32 (amount (items w e))"
    and ad: "isInt32 (amount (items w d) + 1)"
  shows "\<exists>w'. equip K w this e audio = Inr w' \<and>
           equipmentSlots (chars w' this) ty = Some e \<and>
           amount (items w' d) = amount (items w d) + 1 \<and>
           d \<in> inventory (chars w' this) (itemType (items w d)) \<and>
           amount (items w' e) = amount (items w e) - 1 \<and>
           (e \<in> inventory (chars w' this) (itemType (items w e)) \<longleftrightarrow>
              amount (items w e) \<noteq> 1 \<and> e \<in> inventory (chars w this) (itemType (items w e)))"
proof -
  let ?w1 = "unequip w this ty (unequipAudioDefault K)"
  let ?w2 = "updChar this (\<lambda>c. c\<lparr>equipmentSlots := (equipmentSlots c)(ty \<mapsto> e)\<rparr>) ?w1"
  note u = unequip_occupied [OF slot md, of "unequipAudioDefault K"]
  have de: "d \<noteq> e" using diff by auto
  have id: "int32 (amount (items w d) + 1) = amount (items w d) + 1"
    using ad by (rule int32_id)
  have it2: "items ?w2 = (items w)(d := (items w d)\<lparr>amount := amount (items w d) + 1\<rparr>)"
    using u(1) id by (simp add: updChar_def)
  have e2: "items ?w2 e = items w e" using de by (simp add: it2)
  have inv2: "inventory (chars ?w2 this) =
      (inventory (chars w this))
        (itemType (items w d) := insert d (inventory (chars w this) (itemType (items w d))))"
    using u(2) by (simp add: updChar_def)
  have mp2: "itemMapper (chars ?w2 this) = itemMapper (chars w this)"
    using u(3) by (simp add: updChar_def)
  have sl2: "equipmentSlots (chars ?w2 this) ty = Some e"
    by (simp add: updChar_def)
  have "isInt32 (amount (items w e) - 1)" using ae by (simp add: isInt32_def)
  then have ie: "int32 (amount (items w e) - 1) = amount (items w e) - 1"
    by (rule int32_id)
  have m: "itemMapper (chars ?w2 this) (jsonFileName (items ?w2 e)) = Some e"
    using me by (simp add: mp2 e2)
  have nn: "0 \<le> int32 (amount (items ?w2 e) - 1)" using ie ae(1) by (simp add: e2)
  have k2: "kind (items ?w2 e) = EquipmentObj ty" using k by (simp add: e2)
  from removeItem_equipped [OF m _ nn k2 sl2] obtain w3 where
    w3: "removeItem ?w2 this (Some e) 1 = Inr w3"
    and it3r: "items w3 =
        (items ?w2)(e := (items ?w2 e)\<lparr>amount := int32 (amount (items ?w2 e) - 1)\<rparr>)"
    and inv3r: "inventory (chars w3 this) =
             (if int32 (amount (items ?w2 e) - 1) = 0
              then (inventory (chars ?w2 this))
                     (itemType (items ?w2 e) :=
                        inventory (chars ?w2 this) (itemType (items ?w2 e)) - {e})
              else inventory (chars ?w2 this))"
    and sl3: "equipmentSlots (chars w3 this) = equipmentSlots (chars ?w2 this)"
    by auto
  have it3: "items w3 = (items ?w2)(e := (items w e)\<lparr>amount := amount (items w e) - 1\<rparr>)"
    using it3r by (simp only: e2 ie)
  have inv3: "inventory (chars w3 this) =
             (if amount (items w e) - 1 = 0
              then (inventory (chars ?w2 this))
                     (itemType (items w e) := inventory (chars ?w2 this) (itemType (items w e)) - {e})
              else inventory (chars ?w2 this))"
    using inv3r by (simp only: e2 ie)
  let ?w' = "if audio then notify [PlaySfxEquipUnequipItem] w3 else w3"
  have eq: "equip K w this e audio = Inr ?w'"
    using k slot w3 by (simp add: equip_def Let_def)
  have obs: "items ?w' = items w3" "chars ?w' = chars w3"
    by (simp_all add: notify_def)
  have 1: "equipmentSlots (chars ?w' this) ty = Some e"
    unfolding obs using sl3 sl2 by simp
  have 2: "amount (items ?w' d) = amount (items w d) + 1"
    unfolding obs using de by (simp add: it3 it2)
  have 3: "d \<in> inventory (chars ?w' this) (itemType (items w d))"
    unfolding obs using de by (simp add: inv3 inv2)
  have 4: "amount (items ?w' e) = amount (items w e) - 1"
    unfolding obs by (simp add: it3)
  have 5: "e \<in> inventory (chars ?w' this) (itemType (items w e)) \<longleftrightarrow>
              amount (items w e) \<noteq> 1 \<and> e \<in> inventory (chars w this) (itemType (items w e))"
    unfolding obs using de by (auto simp: inv3 inv2)
  from eq 1 2 3 4 5 show ?thesis by blast
qed

lemmas equip_defs = equipOutcome_def equip_def unequip_def addItem_def removeItem_def
  getExistingItemObj_def setAmount_def inventoryInsert_def inventoryErase_def
  updChar_def notify_def int32_id isInt32_def Let_def armedWorld_def
  exampleWorld_def exampleCharacter_def exampleItems_def exampleConstants_def

theorem equip_replaces_occupant_witness:
  "kind (items (armedWorld 1) 10) = EquipmentObj WEAPON_SLOT \<and>
   equipmentSlots (chars (armedWorld 1) 1) WEAPON_SLOT = Some 11 \<and>
   amount (items (armedWorld 1) 10) = 1 \<and>
   amount (items (armedWorld 1) 11) = 0 \<and>
   inventory (chars (armedWorld 1) 1) 0 = {10} \<and>
   equipOutcome (equip exampleConstants (armedWorld 1) 1 10 False) =
     Inr (Some 10, {11}, 0, 1)"
proof -
  have h: "kind (items (armedWorld 1) 10) = EquipmentObj WEAPON_SLOT"
    "equipmentSlots (chars (armedWorld 1) 1) WEAPON_SLOT = Some 11"
    "jsonFileName (items (armedWorld 1) 11) \<noteq> jsonFileName (items (armedWorld 1) 10)"
    "itemMapper (chars (armedWorld 1) 1) (jsonFileName (items (armedWorld 1) 11)) = Some 11"
    "itemMapper (chars (armedWorld 1) 1) (jsonFileName (items (armedWorld 1) 10)) = Some 10"
    "1 \<le> amount (items (armedWorld 1) 10)"
    "isInt32 (amount (items (armedWorld 1) 10))"
    "isInt32 (amount (items (armedWorld 1) 11) + 1)"
    by (simp_all add: armedWorld_def setAmount_def updChar_def isInt32_def
        exampleWorld_def exampleItems_def)
  have a: "amount (items (armedWorld 1) 10) = 1" "amount (items (armedWorld 1) 11) = 0"
    "inventory (chars (armedWorld 1) 1) 0 = {10}"
    by (simp_all add: armedWorld_def setAmount_def updChar_def exampleWorld_def exampleItems_def)
  from equip_replaces_occupant [OF h, of exampleConstants False] obtain w' where
    "equip exampleConstants (armedWorld 1) 1 10 False = Inr w'"
    "equipmentSlots (chars w' 1) WEAPON_SLOT = Some 10"
    by blast
  moreover have "equipOutcome (equip exampleConstants (armedWorld 1) 1 10 False) =
     Inr (Some 10, {11}, 0, 1)"
    by (auto simp: equip_defs)
  ultimately show ?thesis using h(1,2) a by simp
qed

text \<open>
  C7 as stated fails: with the dagger equipped and two swords in the inventory, after
  \<open>equip(sword)\<close> the sword instance (the object at 10) is in the weapon slot and, with
  quantity 1, still in the inventory.
\<close>

theorem equip_exclusive_counterexample:
  "equipOutcome (equip exampleConstants (armedWorld 2) 1 10 False) =
     Inr (Some 10, {10, 11}, 1, 1)"
  by (auto simp: equip_defs)

end
